theory Spec2Isabelle
  imports Main "HOL-Library.List_Lexorder" "HOL-Library.Char_ord"
begin

section \<open>Data model (pkg/models)\<close>

text \<open>
  A \<open>uuid.UUID\<close> is represented by its canonical text, the value of its \<open>String()\<close>
  method; an instant (\<open>time.Time\<close>, \<open>TIMESTAMP WITH TIME ZONE\<close>) by the number of
  seconds since the epoch, in the time zone of the database session.
\<close>

type_synonym uuid = string
type_synonym time = int

definition uuid_String :: "uuid \<Rightarrow> string" where
  "uuid_String u = u"

definition date_of :: "time \<Rightarrow> int" where
  "date_of t = t div 86400"

text \<open>
  The values a \<open>JSONMap\<close> (\<open>map[string]interface{}\<close>) holds, as the JSON document
  they marshal to. A Go map has one value per key: lookups go through \<open>map_of\<close>.
  \<open>JNumber n\<close> is a value of an integer type, \<open>JFloat m e\<close> the \<open>float64\<close>
  of value \<open>m * 2 ^ e\<close>, \<open>JTime\<close> a \<open>time.Time\<close>, \<open>JArray\<close> a
  \<open>[]interface{}\<close>, \<open>JObject\<close> a \<open>map[string]interface{}\<close>, and
  \<open>JUnsupported T\<close> a value of a type \<open>T\<close> that \<open>encoding/json\<close> refuses, such
  as a channel or a function.
\<close>

datatype json = JNull | JBool bool | JNumber int | JFloat int int | JString string
  | JTime time | JArray "json list" | JObject "(string \<times> json) list"
  | JUnsupported string

type_synonym JSONMap = "(string \<times> json) list"

text \<open>Go errors: the driver's and the broker's own errors, and \<open>fmt.Errorf\<close> wrappers.\<close>

datatype error = DriverError | KafkaError | Errorf string "error option"

definition DailyReminder :: string where "DailyReminder = ''daily_reminder''"
definition StreakReminder :: string where "StreakReminder = ''streak_reminder''"
definition LastChanceAlert :: string where "LastChanceAlert = ''last_chance_alert''"
definition AchievementUnlock :: string where "AchievementUnlock = ''achievement_unlock''"
definition XPGoalReminder :: string where "XPGoalReminder = ''xp_goal_reminder''"
definition LeagueUpdate :: string where "LeagueUpdate = ''league_update''"
definition WeMissYou :: string where "WeMissYou = ''we_miss_you''"
definition EventNotification :: string where "EventNotification = ''event_notification''"
definition NewCourse :: string where "NewCourse = ''new_course''"
definition PracticeNeeded :: string where "PracticeNeeded = ''practice_needed''"
definition WeeklyRecap :: string where "WeeklyRecap = ''weekly_recap''"

definition ChannelInApp :: string where "ChannelInApp = ''in_app''"
definition ChannelPush :: string where "ChannelPush = ''push''"
definition ChannelEmail :: string where "ChannelEmail = ''email''"
definition ChannelSMS :: string where "ChannelSMS = ''sms''"

definition StatusQueued :: string where "StatusQueued = ''queued''"
definition StatusSent :: string where "StatusSent = ''sent''"
definition StatusDelivered :: string where "StatusDelivered = ''delivered''"
definition StatusRead :: string where "StatusRead = ''read''"

definition PriorityLow :: string where "PriorityLow = ''low''"
definition PriorityMedium :: string where "PriorityMedium = ''medium''"
definition PriorityHigh :: string where "PriorityHigh = ''high''"

definition IsValidNotificationType :: "string \<Rightarrow> bool" where
  "IsValidNotificationType nt \<longleftrightarrow>
     nt \<in> set [DailyReminder, StreakReminder, LastChanceAlert, AchievementUnlock,
       XPGoalReminder, LeagueUpdate, WeMissYou, EventNotification,
       NewCourse, PracticeNeeded, WeeklyRecap]"

definition IsValidChannel :: "string \<Rightarrow> bool" where
  "IsValidChannel nc \<longleftrightarrow>
     nc \<in> set [ChannelInApp, ChannelPush, ChannelEmail, ChannelSMS]"

record User =
  User_ID :: uuid
  User_Name :: string
  User_Email :: string

record Notification =
  N_ID :: uuid
  N_UserID :: uuid
  N_Type :: string
  N_Channel :: string
  N_Priority :: string
  N_Title :: "string option"
  N_Message :: string
  N_Metadata :: JSONMap
  N_CreatedAt :: time
  N_ScheduledFor :: "time option"
  N_SentAt :: "time option"
  N_DeliveredAt :: "time option"
  N_ReadAt :: "time option"
  N_Status :: string

record CreateNotificationRequest =
  Req_UserID :: uuid
  Req_Type :: string
  Req_Channel :: string
  Req_Priority :: string
  Req_Title :: "string option"
  Req_Message :: string
  Req_Metadata :: JSONMap
  Req_ScheduledFor :: "time option"

record OutboxNotification =
  Ob_ID :: int
  Ob_NotificationID :: uuid
  Ob_Topic :: string
  Ob_Payload :: JSONMap
  Ob_Published :: bool
  Ob_CreatedAt :: time
  Ob_PublishedAt :: "time option"

record UserNotificationPreferences =
  Pref_UserID :: uuid
  Pref_Type :: string
  Pref_Channel :: string
  Pref_Enabled :: bool
  Pref_QuietHoursStart :: "string option"
  Pref_QuietHoursEnd :: "string option"
  Pref_MaxPerDay :: "int option"
  Pref_Metadata :: JSONMap
  Pref_UpdatedAt :: time

record UserEngagementStreak =
  Streak_UserID :: uuid
  Streak_StreakType :: string
  Streak_CurrentStreak :: int
  Streak_LongestStreak :: int
  Streak_LastActivityDate :: "time option"
  Streak_StreakStartDate :: "time option"
  Streak_TotalActivities :: int
  Streak_Timezone :: string
  Streak_UpdatedAt :: time

record NotificationDeliveryAttempt =
  Att_NotificationID :: uuid
  Att_AttemptNo :: int
  Att_Status :: string
  Att_CreatedAt :: time

text \<open>A \<open>sarama.ProducerMessage\<close>; the value is the JSON document the bytes encode.\<close>

record ProducerMessage =
  Msg_Topic :: string
  Msg_Key :: string
  Msg_Value :: JSONMap

section \<open>The world the processes run in\<close>

text \<open>
  The tables of the PostgreSQL database, the log of the broker, and the answers of the
  environment: \<open>db_faults\<close> and \<open>send_faults\<close> script the outcome of the next
  database statements and of the next \<open>SendMessage\<close> calls (\<open>True\<close> is a failure,
  an exhausted script is success), \<open>clock\<close> gives the successive readings of the
  clock and \<open>uuids\<close> the successive results of \<open>uuid.New()\<close>.
\<close>

record world =
  users :: "User list"
  user_notification_preferences :: "UserNotificationPreferences list"
  user_engagement_streaks :: "UserEngagementStreak list"
  notifications :: "Notification list"
  outbox_notifications :: "OutboxNotification list"
  outbox_seq :: int
  notification_delivery_attempts :: "NotificationDeliveryAttempt list"
  broker_log :: "ProducerMessage list"
  db_faults :: "bool list"
  send_faults :: "bool list"
  clock :: "nat \<Rightarrow> time"
  clock_reads :: nat
  uuids :: "nat \<Rightarrow> uuid"
  uuid_reads :: nat
  OUTBOX_IMMEDIATE_PUBLISH :: string

text \<open>\<open>time.Now()\<close> and \<open>uuid.New()\<close>: the value read, and the world after the read.\<close>

definition now :: "world \<Rightarrow> time" where
  "now w = clock w (clock_reads w)"

definition tick :: "world \<Rightarrow> world" where
  "tick w = w\<lparr>clock_reads := Suc (clock_reads w)\<rparr>"

definition new_uuid :: "world \<Rightarrow> uuid" where
  "new_uuid w = uuids w (uuid_reads w)"

definition took_uuid :: "world \<Rightarrow> world" where
  "took_uuid w = w\<lparr>uuid_reads := Suc (uuid_reads w)\<rparr>"

text \<open>One statement sent to the database: whether it goes through, and the world after it.\<close>

definition db_ok :: "world \<Rightarrow> bool" where
  "db_ok w = (case db_faults w of [] \<Rightarrow> True | f # fs \<Rightarrow> \<not> f)"

definition db_next :: "world \<Rightarrow> world" where
  "db_next w = w\<lparr>db_faults := (case db_faults w of [] \<Rightarrow> [] | f # fs \<Rightarrow> fs)\<rparr>"

text \<open>\<open>SyncProducer.SendMessage\<close>: on success the message is in the broker's log.\<close>

definition send_ok :: "world \<Rightarrow> bool" where
  "send_ok w = (case send_faults w of [] \<Rightarrow> True | f # fs \<Rightarrow> \<not> f)"

definition send_next :: "world \<Rightarrow> world" where
  "send_next w = w\<lparr>send_faults := (case send_faults w of [] \<Rightarrow> [] | f # fs \<Rightarrow> fs)\<rparr>"

definition SendMessage :: "ProducerMessage \<Rightarrow> world \<Rightarrow> error option \<times> world" where
  "SendMessage m w =
     (if send_ok w then (None, (send_next w)\<lparr>broker_log := broker_log w @ [m]\<rparr>)
      else (Some KafkaError, send_next w))"

text \<open>No failure of the database is scripted.\<close>

definition db_answers :: "world \<Rightarrow> bool" where
  "db_answers w \<longleftrightarrow> (\<forall>f\<in>set (db_faults w). \<not> f)"

section \<open>PostgresNotificationRepository (pkg/repository)\<close>

text \<open>
  \<open>INSERT INTO notifications (id, user_id, type, channel, priority, template_id, title,
  message, metadata, dedupe_key, scheduled_for, status, created_at)\<close>: the columns
  \<open>sent_at\<close>, \<open>delivered_at\<close> and \<open>read_at\<close> are not written and stay null.
\<close>

definition repo_CreateNotification :: "Notification \<Rightarrow> world \<Rightarrow> error option \<times> world" where
  "repo_CreateNotification n w =
     (if \<not> db_ok w
      then (Some (Errorf ''failed to create notification'' (Some DriverError)), db_next w)
      else (None, (db_next w)\<lparr>notifications := notifications w @
              [n\<lparr>N_SentAt := None, N_DeliveredAt := None, N_ReadAt := None\<rparr>]\<rparr>))"

text \<open>
  \<open>SELECT ... FROM outbox_notifications WHERE published = false
  ORDER BY created_at ASC LIMIT $1\<close>; PostgreSQL rejects a negative \<open>LIMIT\<close>.
\<close>

definition repo_GetUnpublishedOutbox ::
  "int \<Rightarrow> world \<Rightarrow> (error + OutboxNotification list) \<times> world" where
  "repo_GetUnpublishedOutbox limit w =
     (if \<not> db_ok w \<or> limit < 0
      then (Inl (Errorf ''failed to query unpublished outbox'' (Some DriverError)), db_next w)
      else (Inr (take (nat limit)
              (sort_key Ob_CreatedAt [r \<leftarrow> outbox_notifications w. \<not> Ob_Published r])),
            db_next w))"

text \<open>\<open>UPDATE outbox_notifications SET published = true, published_at = $1 WHERE id = $2\<close>.\<close>

definition repo_MarkOutboxPublished :: "int \<Rightarrow> world \<Rightarrow> error option \<times> world" where
  "repo_MarkOutboxPublished outboxID w =
     (let w1 = tick w in
      if \<not> db_ok w1
      then (Some (Errorf ''failed to mark outbox as published'' (Some DriverError)), db_next w1)
      else (None, (db_next w1)\<lparr>outbox_notifications :=
              map (\<lambda>r. if Ob_ID r = outboxID
                        then r\<lparr>Ob_Published := True, Ob_PublishedAt := Some (now w)\<rparr> else r)
                  (outbox_notifications w)\<rparr>))"

text \<open>
  \<open>INSERT INTO outbox_notifications (notification_id, topic, payload, published,
  created_at)\<close>: the id comes from the table's sequence, \<open>published_at\<close> stays null.
\<close>

definition repo_CreateOutboxEntry :: "OutboxNotification \<Rightarrow> world \<Rightarrow> error option \<times> world" where
  "repo_CreateOutboxEntry outboxItem w =
     (if \<not> db_ok w
      then (Some (Errorf ''failed to create outbox entry'' (Some DriverError)), db_next w)
      else (None, (db_next w)\<lparr>outbox_seq := outbox_seq w + 1,
              outbox_notifications := outbox_notifications w @
                [outboxItem\<lparr>Ob_ID := outbox_seq w + 1, Ob_PublishedAt := None\<rparr>]\<rparr>))"

text \<open>
  \<open>SELECT ... FROM user_engagement_streaks WHERE user_id = $1 AND streak_type = $2\<close>,
  read with \<open>QueryRow\<close>: the first row, or an error when there is none.
\<close>

definition repo_GetUserEngagementStreak ::
  "uuid \<Rightarrow> string \<Rightarrow> world \<Rightarrow> (error + UserEngagementStreak) \<times> world" where
  "repo_GetUserEngagementStreak userID streakType w =
     (if \<not> db_ok w
      then (Inl (Errorf ''failed to get user engagement streak'' (Some DriverError)), db_next w)
      else (case [s \<leftarrow> user_engagement_streaks w.
                   Streak_UserID s = userID \<and> Streak_StreakType s = streakType] of
              [] \<Rightarrow> (Inl (Errorf ''streak not found for user'' None), db_next w)
            | streak # _ \<Rightarrow> (Inr streak, db_next w)))"

section \<open>notificationService (internal/services)\<close>

text \<open>
  The service holds the repository behind the \<open>NotificationRepository\<close> interface;
  \<open>GetUserNotifications\<close> is given the interface's method as \<open>repository\<close>.
\<close>

definition GetUserNotifications ::
  "(uuid \<Rightarrow> int \<Rightarrow> int \<Rightarrow> 'r) \<Rightarrow> uuid \<Rightarrow> int \<Rightarrow> int \<Rightarrow> 'r" where
  "GetUserNotifications repository userID limit offset =
     (let limit = (if limit \<le> 0 then 50 else limit);
          offset = (if offset < 0 then 0 else offset)
      in repository userID limit offset)"

text \<open>JSON text is represented by the document it encodes.\<close>

definition mustMarshalJSON :: "JSONMap \<Rightarrow> JSONMap" where
  "mustMarshalJSON v = v"

text \<open>The message \<open>ProcessOutbox\<close> builds for an outbox item.\<close>

definition outbox_message :: "OutboxNotification \<Rightarrow> ProducerMessage" where
  "outbox_message item = \<lparr>Msg_Topic = Ob_Topic item,
                           Msg_Key = uuid_String (Ob_NotificationID item),
                           Msg_Value = mustMarshalJSON (Ob_Payload item)\<rparr>"

text \<open>The body of the loop of \<open>ProcessOutbox\<close> over the fetched items.\<close>

fun ProcessOutbox_items :: "OutboxNotification list \<Rightarrow> world \<Rightarrow> error option \<times> world" where
  "ProcessOutbox_items [] w = (None, w)"
| "ProcessOutbox_items (item # items) w =
     (let message = outbox_message item
      in (case SendMessage message w of
           (Some err, w1) \<Rightarrow> (Some (Errorf ''failed to send message to Kafka'' (Some err)), w1)
         | (None, w1) \<Rightarrow>
             (case repo_MarkOutboxPublished (Ob_ID item) w1 of
                (Some err, w2) \<Rightarrow>
                  (Some (Errorf ''failed to mark outbox as published'' (Some err)), w2)
              | (None, w2) \<Rightarrow> ProcessOutbox_items items w2)))"

definition ProcessOutbox :: "world \<Rightarrow> error option \<times> world" where
  "ProcessOutbox w = (case repo_GetUnpublishedOutbox 100 w of
       (Inl err, w1) \<Rightarrow> (Some (Errorf ''failed to get unpublished outbox'' (Some err)), w1)
     | (Inr outboxItems, w1) \<Rightarrow> ProcessOutbox_items outboxItems w1)"

text \<open>
  What a tick makes of a row of the outbox when the rows with an id in \<open>S\<close> have
  been marked: such a row is published, with some time of publication, any other row is
  as it was.
\<close>

definition marked_as_published ::
  "int set \<Rightarrow> OutboxNotification \<Rightarrow> OutboxNotification \<Rightarrow> bool" where
  "marked_as_published S r r' \<longleftrightarrow>
     (if Ob_ID r \<in> S then \<exists>t. r' = r\<lparr>Ob_Published := True, Ob_PublishedAt := Some t\<rparr>
      else r' = r)"

text \<open>
  The payload every creator of the service and of the scheduler writes into the outbox
  entry of a notification.
\<close>

definition payload_of :: "Notification \<Rightarrow> JSONMap" where
  "payload_of notification =
     [(''id'', JString (uuid_String (N_ID notification))),
      (''user_id'', JString (uuid_String (N_UserID notification))),
      (''type'', JString (N_Type notification)),
      (''channel'', JString (N_Channel notification)),
      (''priority'', JString (N_Priority notification)),
      (''title'', (case N_Title notification of None \<Rightarrow> JNull | Some t \<Rightarrow> JString t)),
      (''message'', JString (N_Message notification)),
      (''created_at'', JTime (N_CreatedAt notification))]"

text \<open>
  \<open>strings.EqualFold\<close> against an ASCII word: equality up to the case of the letters
  (no other character folds to a letter of \<open>true\<close>).
\<close>

definition lower_ascii :: "char \<Rightarrow> char" where
  "lower_ascii c = (case map_of (zip ''ABCDEFGHIJKLMNOPQRSTUVWXYZ''
                                     ''abcdefghijklmnopqrstuvwxyz'') c of
                      None \<Rightarrow> c | Some l \<Rightarrow> l)"

definition EqualFold :: "string \<Rightarrow> string \<Rightarrow> bool" where
  "EqualFold s t \<longleftrightarrow> map lower_ascii s = map lower_ascii t"

definition CreateNotification ::
  "string \<Rightarrow> CreateNotificationRequest \<Rightarrow> world \<Rightarrow> (error + Notification) \<times> world" where
  "CreateNotification topic req w =
     (if \<not> IsValidNotificationType (Req_Type req)
      then (Inl (Errorf ''invalid notification type'' None), w)
      else if \<not> IsValidChannel (Req_Channel req)
      then (Inl (Errorf ''invalid notification channel'' None), w)
      else
        let w1 = took_uuid w; w2 = tick w1;
            notification = \<lparr>N_ID = new_uuid w, N_UserID = Req_UserID req,
              N_Type = Req_Type req, N_Channel = Req_Channel req,
              N_Priority = Req_Priority req, N_Title = Req_Title req,
              N_Message = Req_Message req, N_Metadata = Req_Metadata req,
              N_CreatedAt = now w1, N_ScheduledFor = Req_ScheduledFor req,
              N_SentAt = None, N_DeliveredAt = None, N_ReadAt = None,
              N_Status = StatusQueued\<rparr>
        in (case repo_CreateNotification notification w2 of
             (Some err, w3) \<Rightarrow> (Inl (Errorf ''failed to create notification'' (Some err)), w3)
           | (None, w3) \<Rightarrow>
              (let w4 = tick w3;
                   outboxItem = \<lparr>Ob_ID = 0, Ob_NotificationID = N_ID notification,
                     Ob_Topic = topic, Ob_Payload = payload_of notification,
                     Ob_Published = False, Ob_CreatedAt = now w3, Ob_PublishedAt = None\<rparr>
               in (case repo_CreateOutboxEntry outboxItem w4 of
                    (Some err, w5) \<Rightarrow>
                      (Inl (Errorf ''failed to create outbox entry'' (Some err)), w5)
                  | (None, w5) \<Rightarrow>
                      (Inr notification,
                       if EqualFold (OUTBOX_IMMEDIATE_PUBLISH w5) ''true''
                       then snd (ProcessOutbox w5) else w5)))))"

section \<open>The rest of the repository's operations\<close>

text \<open>
  The three status updates of a notification, each one \<open>UPDATE notifications SET ...
  WHERE id = $4\<close> with the time read before the statement.
\<close>

definition repo_MarkAsRead :: "uuid \<Rightarrow> world \<Rightarrow> error option \<times> world" where
  "repo_MarkAsRead notificationID w =
     (let w1 = tick w in
      if \<not> db_ok w1
      then (Some (Errorf ''failed to mark notification as read'' (Some DriverError)), db_next w1)
      else (None, (db_next w1)\<lparr>notifications :=
              map (\<lambda>n. if N_ID n = notificationID
                        then n\<lparr>N_ReadAt := Some (now w), N_Status := StatusRead\<rparr> else n)
                  (notifications w)\<rparr>))"

definition repo_MarkAsDelivered :: "uuid \<Rightarrow> world \<Rightarrow> error option \<times> world" where
  "repo_MarkAsDelivered notificationID w =
     (let w1 = tick w in
      if \<not> db_ok w1
      then (Some (Errorf ''failed to mark notification as delivered'' (Some DriverError)),
            db_next w1)
      else (None, (db_next w1)\<lparr>notifications :=
              map (\<lambda>n. if N_ID n = notificationID
                        then n\<lparr>N_DeliveredAt := Some (now w), N_Status := StatusDelivered\<rparr>
                        else n)
                  (notifications w)\<rparr>))"

definition repo_MarkAsSent :: "uuid \<Rightarrow> world \<Rightarrow> error option \<times> world" where
  "repo_MarkAsSent notificationID w =
     (let w1 = tick w in
      if \<not> db_ok w1
      then (Some (Errorf ''failed to mark notification as sent'' (Some DriverError)), db_next w1)
      else (None, (db_next w1)\<lparr>notifications :=
              map (\<lambda>n. if N_ID n = notificationID
                        then n\<lparr>N_SentAt := Some (now w), N_Status := StatusSent\<rparr> else n)
                  (notifications w)\<rparr>))"

text \<open>
  \<open>INSERT INTO user_notification_preferences ... ON CONFLICT ... DO UPDATE SET\<close>:
  the row of the same user, type and channel is overwritten, or a new row is added.
\<close>

definition repo_UpdateUserPreferences ::
  "uuid \<Rightarrow> UserNotificationPreferences \<Rightarrow> world \<Rightarrow> error option \<times> world" where
  "repo_UpdateUserPreferences userID prefs w =
     (let w1 = tick w;
          row = prefs\<lparr>Pref_UserID := userID, Pref_UpdatedAt := now w\<rparr>;
          same = (\<lambda>p. Pref_UserID p = userID \<and> Pref_Type p = Pref_Type prefs
                       \<and> Pref_Channel p = Pref_Channel prefs)
      in if \<not> db_ok w1
         then (Some (Errorf ''failed to update user preferences'' (Some DriverError)), db_next w1)
         else (None, (db_next w1)\<lparr>user_notification_preferences :=
                 (if list_ex same (user_notification_preferences w)
                  then map (\<lambda>p. if same p then row else p) (user_notification_preferences w)
                  else user_notification_preferences w @ [row])\<rparr>))"

definition repo_UpdateUserEngagementStreak ::
  "UserEngagementStreak \<Rightarrow> world \<Rightarrow> error option \<times> world" where
  "repo_UpdateUserEngagementStreak streak w =
     (let w1 = tick w;
          row = streak\<lparr>Streak_UpdatedAt := now w\<rparr>;
          same = (\<lambda>s. Streak_UserID s = Streak_UserID streak
                       \<and> Streak_StreakType s = Streak_StreakType streak)
      in if \<not> db_ok w1
         then (Some (Errorf ''failed to update user engagement streak'' (Some DriverError)),
               db_next w1)
         else (None, (db_next w1)\<lparr>user_engagement_streaks :=
                 (if list_ex same (user_engagement_streaks w)
                  then map (\<lambda>s. if same s then row else s) (user_engagement_streaks w)
                  else user_engagement_streaks w @ [row])\<rparr>))"

definition repo_CreateDeliveryAttempt ::
  "NotificationDeliveryAttempt \<Rightarrow> world \<Rightarrow> error option \<times> world" where
  "repo_CreateDeliveryAttempt attempt w =
     (if \<not> db_ok w
      then (Some (Errorf ''failed to create delivery attempt'' (Some DriverError)), db_next w)
      else (None, (db_next w)\<lparr>notification_delivery_attempts :=
              notification_delivery_attempts w @ [attempt]\<rparr>))"

text \<open>
  The calls of the \<open>NotificationRepository\<close> interface, and the world after each one.
  A query (\<open>SELECT\<close>) changes no table.
\<close>

datatype repo_call =
    Call_CreateNotification Notification
  | Call_GetUserNotifications uuid int int
  | Call_GetNotificationByID uuid
  | Call_MarkAsRead uuid
  | Call_MarkAsDelivered uuid
  | Call_MarkAsSent uuid
  | Call_GetUnpublishedOutbox int
  | Call_MarkOutboxPublished int
  | Call_CreateOutboxEntry OutboxNotification
  | Call_GetUserPreferences uuid
  | Call_UpdateUserPreferences uuid UserNotificationPreferences
  | Call_GetUserEngagementStreak uuid string
  | Call_UpdateUserEngagementStreak UserEngagementStreak
  | Call_GetNotificationsByStatus string int
  | Call_GetScheduledNotifications time int
  | Call_CreateDeliveryAttempt NotificationDeliveryAttempt
  | Call_GetNotificationTemplates string string

fun repo_after :: "repo_call \<Rightarrow> world \<Rightarrow> world" where
  "repo_after (Call_CreateNotification n) w = snd (repo_CreateNotification n w)"
| "repo_after (Call_GetUserNotifications userID limit offset) w = db_next w"
| "repo_after (Call_GetNotificationByID notificationID) w = db_next w"
| "repo_after (Call_MarkAsRead notificationID) w = snd (repo_MarkAsRead notificationID w)"
| "repo_after (Call_MarkAsDelivered notificationID) w =
     snd (repo_MarkAsDelivered notificationID w)"
| "repo_after (Call_MarkAsSent notificationID) w = snd (repo_MarkAsSent notificationID w)"
| "repo_after (Call_GetUnpublishedOutbox limit) w = snd (repo_GetUnpublishedOutbox limit w)"
| "repo_after (Call_MarkOutboxPublished outboxID) w =
     snd (repo_MarkOutboxPublished outboxID w)"
| "repo_after (Call_CreateOutboxEntry outboxItem) w = snd (repo_CreateOutboxEntry outboxItem w)"
| "repo_after (Call_GetUserPreferences userID) w = db_next w"
| "repo_after (Call_UpdateUserPreferences userID prefs) w =
     snd (repo_UpdateUserPreferences userID prefs w)"
| "repo_after (Call_GetUserEngagementStreak userID streakType) w =
     snd (repo_GetUserEngagementStreak userID streakType w)"
| "repo_after (Call_UpdateUserEngagementStreak streak) w =
     snd (repo_UpdateUserEngagementStreak streak w)"
| "repo_after (Call_GetNotificationsByStatus status limit) w = db_next w"
| "repo_after (Call_GetScheduledNotifications before limit) w = db_next w"
| "repo_after (Call_CreateDeliveryAttempt attempt) w = snd (repo_CreateDeliveryAttempt attempt w)"
| "repo_after (Call_GetNotificationTemplates notificationType channel) w = db_next w"

text \<open>
  What one row of the outbox may become: it keeps its id, and a row that has been
  published stays published.
\<close>

definition published_kept :: "OutboxNotification \<Rightarrow> OutboxNotification \<Rightarrow> bool" where
  "published_kept r r' \<longleftrightarrow> Ob_ID r' = Ob_ID r \<and> (Ob_Published r \<longrightarrow> Ob_Published r')"

text \<open>The tables of the store are the same in two worlds.\<close>

definition same_store :: "world \<Rightarrow> world \<Rightarrow> bool" where
  "same_store w w' \<longleftrightarrow> users w' = users w
     \<and> user_notification_preferences w' = user_notification_preferences w
     \<and> user_engagement_streaks w' = user_engagement_streaks w
     \<and> notifications w' = notifications w
     \<and> outbox_notifications w' = outbox_notifications w
     \<and> notification_delivery_attempts w' = notification_delivery_attempts w"

text \<open>Two states of one outbox entry: all is the same but, maybe, the publication.\<close>

definition same_entry :: "OutboxNotification \<Rightarrow> OutboxNotification \<Rightarrow> bool" where
  "same_entry r r' \<longleftrightarrow> Ob_ID r' = Ob_ID r \<and> Ob_NotificationID r' = Ob_NotificationID r
     \<and> Ob_Topic r' = Ob_Topic r \<and> Ob_Payload r' = Ob_Payload r
     \<and> Ob_CreatedAt r' = Ob_CreatedAt r"

section \<open>SchedulerService (cmd/scheduler)\<close>

text \<open>\<open>fmt.Sprintf\<close> of an integer with \<open>%d\<close>.\<close>

fun nat_string :: "nat \<Rightarrow> string" where
  "nat_string n = (if n < 10 then [char_of (48 + n)]
                   else nat_string (n div 10) @ [char_of (48 + n mod 10)])"

declare nat_string.simps [simp del]

definition Sprint_d :: "int \<Rightarrow> string" where
  "Sprint_d i = (if i < 0 then CHR ''-'' # nat_string (nat (- i)) else nat_string (nat i))"

text \<open>
  The cohort of the daily reminder: the users with an enabled \<open>daily_reminder\<close>
  preference on the \<open>in_app\<close> channel and no \<open>daily_reminder\<close> notification created
  on the current date (\<open>SELECT DISTINCT ... JOIN ... WHERE ... AND NOT EXISTS\<close>).
\<close>

definition getUsersNeedingDailyReminders :: "world \<Rightarrow> (error + User list) \<times> world" where
  "getUsersNeedingDailyReminders w =
     (let w1 = tick w in
      if \<not> db_ok w1
      then (Inl (Errorf ''failed to query users needing daily reminders'' (Some DriverError)),
            db_next w1)
      else (Inr (remdups
              [u. u \<leftarrow> users w, unp \<leftarrow> user_notification_preferences w,
                  User_ID u = Pref_UserID unp \<and> Pref_Type unp = ''daily_reminder''
                  \<and> Pref_Channel unp = ''in_app'' \<and> Pref_Enabled unp
                  \<and> \<not> list_ex (\<lambda>n. N_UserID n = User_ID u \<and> N_Type n = ''daily_reminder''
                                    \<and> date_of (N_CreatedAt n) = date_of (now w))
                         (notifications w)]),
            db_next w1))"

definition createDailyReminder :: "User \<Rightarrow> world \<Rightarrow> error option \<times> world" where
  "createDailyReminder user w =
     (case repo_GetUserEngagementStreak (User_ID user) ''practice'' w of (found, w1) \<Rightarrow>
        let currentStreak = (case found of Inl err \<Rightarrow> 0
                             | Inr streak \<Rightarrow> Streak_CurrentStreak streak);
            w2 = took_uuid w1; w3 = tick w2;
            notification = \<lparr>N_ID = new_uuid w1, N_UserID = User_ID user,
              N_Type = DailyReminder, N_Channel = ChannelInApp,
              N_Priority = PriorityMedium, N_Title = Some ''Time to Practice!'',
              N_Message = ''Hey '' @ User_Name user
                @ ''! It's time for your daily practice session. Keep your ''
                @ Sprint_d currentStreak @ ''-day streak alive! ''
                @ [CHR 0xC3, CHR 0xB0, CHR 0xC5, CHR 0xB8, CHR 0xE2, CHR 0x80, CHR 0x9D,
                   CHR 0xC2, CHR 0xA5],
              N_Metadata = [], N_CreatedAt = now w2, N_ScheduledFor = None,
              N_SentAt = None, N_DeliveredAt = None, N_ReadAt = None,
              N_Status = StatusQueued\<rparr>
        in (case repo_CreateNotification notification w3 of
              (Some err, w4) \<Rightarrow> (Some (Errorf ''failed to create daily reminder'' (Some err)), w4)
            | (None, w4) \<Rightarrow>
               (let w5 = tick w4;
                    outboxItem = \<lparr>Ob_ID = 0, Ob_NotificationID = N_ID notification,
                      Ob_Topic = ''notifications'', Ob_Payload = payload_of notification,
                      Ob_Published = False, Ob_CreatedAt = now w4, Ob_PublishedAt = None\<rparr>
                in (None, snd (repo_CreateOutboxEntry outboxItem w5)))))"

text \<open>The other three creators of the scheduler.\<close>

definition createStreakReminder :: "User \<Rightarrow> world \<Rightarrow> error option \<times> world" where
  "createStreakReminder user w =
     (case repo_GetUserEngagementStreak (User_ID user) ''practice'' w of
        (Inl err, w1) \<Rightarrow> (Some (Errorf ''failed to get user streak'' (Some err)), w1)
      | (Inr streak, w1) \<Rightarrow>
          if Streak_CurrentStreak streak = 0
          then (Some (Errorf ''user has no active streak'' None), w1)
          else
            let w2 = took_uuid w1; w3 = tick w2;
                notification = \<lparr>N_ID = new_uuid w1, N_UserID = User_ID user,
                  N_Type = StreakReminder, N_Channel = ChannelInApp,
                  N_Priority = PriorityHigh, N_Title = Some ''Don't Break Your Streak!'',
                  N_Message = User_Name user @ '', you haven't practiced today! Your ''
                    @ Sprint_d (Streak_CurrentStreak streak)
                    @ ''-day streak is at risk. Practice now to keep it going!'',
                  N_Metadata = [], N_CreatedAt = now w2, N_ScheduledFor = None,
                  N_SentAt = None, N_DeliveredAt = None, N_ReadAt = None,
                  N_Status = StatusQueued\<rparr>
            in (case repo_CreateNotification notification w3 of
                  (Some err, w4) \<Rightarrow>
                    (Some (Errorf ''failed to create streak reminder'' (Some err)), w4)
                | (None, w4) \<Rightarrow>
                   (let w5 = tick w4;
                        outboxItem = \<lparr>Ob_ID = 0, Ob_NotificationID = N_ID notification,
                          Ob_Topic = ''notifications'', Ob_Payload = payload_of notification,
                          Ob_Published = False, Ob_CreatedAt = now w4,
                          Ob_PublishedAt = None\<rparr>
                    in (None, snd (repo_CreateOutboxEntry outboxItem w5)))))"

definition createWeeklyRecap :: "User \<Rightarrow> world \<Rightarrow> error option \<times> world" where
  "createWeeklyRecap user w =
     (case repo_GetUserEngagementStreak (User_ID user) ''practice'' w of (found, w1) \<Rightarrow>
        let currentStreak = (case found of Inl err \<Rightarrow> 0
                             | Inr streak \<Rightarrow> Streak_CurrentStreak streak);
            w2 = took_uuid w1; w3 = tick w2;
            notification = \<lparr>N_ID = new_uuid w1, N_UserID = User_ID user,
              N_Type = WeeklyRecap, N_Channel = ChannelInApp,
              N_Priority = PriorityLow, N_Title = Some ''Your Weekly Progress Report'',
              N_Message = ''Great week '' @ User_Name user @ ''! You maintained your ''
                @ Sprint_d currentStreak @ ''-day streak! Keep up the amazing work! ''
                @ [CHR 0xC3, CHR 0xB0, CHR 0xC5, CHR 0xB8, CHR 0xC5, CHR 0xBD, CHR 0xE2,
                   CHR 0x80, CHR 0xB0],
              N_Metadata = [], N_CreatedAt = now w2, N_ScheduledFor = None,
              N_SentAt = None, N_DeliveredAt = None, N_ReadAt = None,
              N_Status = StatusQueued\<rparr>
        in (case repo_CreateNotification notification w3 of
              (Some err, w4) \<Rightarrow> (Some (Errorf ''failed to create weekly recap'' (Some err)), w4)
            | (None, w4) \<Rightarrow>
               (let w5 = tick w4;
                    outboxItem = \<lparr>Ob_ID = 0, Ob_NotificationID = N_ID notification,
                      Ob_Topic = ''notifications'', Ob_Payload = payload_of notification,
                      Ob_Published = False, Ob_CreatedAt = now w4, Ob_PublishedAt = None\<rparr>
                in (None, snd (repo_CreateOutboxEntry outboxItem w5)))))"

definition createEngagementNudge :: "User \<Rightarrow> world \<Rightarrow> error option \<times> world" where
  "createEngagementNudge user w =
     (let w1 = took_uuid w; w2 = tick w1;
          notification = \<lparr>N_ID = new_uuid w, N_UserID = User_ID user,
            N_Type = WeMissYou, N_Channel = ChannelInApp,
            N_Priority = PriorityLow, N_Title = Some ''We Miss You!'',
            N_Message = ''Hey '' @ User_Name user
              @ ''! It's been a while since your last practice. Your skills are getting ''
              @ ''rusty! Come back and practice! ''
              @ [CHR 0xC3, CHR 0xB0, CHR 0xC5, CHR 0xB8, CHR 0xE2, CHR 0x80, CHR 0x99,
                 CHR 0xC2, CHR 0xAA],
            N_Metadata = [], N_CreatedAt = now w1, N_ScheduledFor = None,
            N_SentAt = None, N_DeliveredAt = None, N_ReadAt = None,
            N_Status = StatusQueued\<rparr>
      in (case repo_CreateNotification notification w2 of
            (Some err, w3) \<Rightarrow> (Some (Errorf ''failed to create engagement nudge'' (Some err)), w3)
          | (None, w3) \<Rightarrow>
             (let w4 = tick w3;
                  outboxItem = \<lparr>Ob_ID = 0, Ob_NotificationID = N_ID notification,
                    Ob_Topic = ''notifications'', Ob_Payload = payload_of notification,
                    Ob_Published = False, Ob_CreatedAt = now w3, Ob_PublishedAt = None\<rparr>
              in (None, snd (repo_CreateOutboxEntry outboxItem w4)))))"

text \<open>The loop of \<open>processDailyReminders\<close>: a failure is logged and the loop goes on.\<close>

fun processDailyReminders_users :: "User list \<Rightarrow> world \<Rightarrow> world" where
  "processDailyReminders_users [] w = w"
| "processDailyReminders_users (user # rest) w =
     processDailyReminders_users rest (snd (createDailyReminder user w))"

definition processDailyReminders :: "world \<Rightarrow> error option \<times> world" where
  "processDailyReminders w = (case getUsersNeedingDailyReminders w of
       (Inl err, w1) \<Rightarrow>
         (Some (Errorf ''failed to get users needing daily reminders'' (Some err)), w1)
     | (Inr us, w1) \<Rightarrow> (None, processDailyReminders_users us w1))"

text \<open>The \<open>daily_reminder\<close> notifications of a user created on a day.\<close>

definition daily_reminders_on :: "int \<Rightarrow> uuid \<Rightarrow> world \<Rightarrow> Notification list" where
  "daily_reminders_on day userID w =
     [n \<leftarrow> notifications w. N_UserID n = userID \<and> N_Type n = ''daily_reminder''
                             \<and> date_of (N_CreatedAt n) = day]"

section \<open>The reminders of notificationService (internal/services)\<close>

text \<open>
  \<open>CreateDailyReminder\<close> and \<open>CreateStreakReminder\<close> of the service: as the
  scheduler's, with the topic of the service, and an error of the outbox insert is
  returned.
\<close>

definition CreateDailyReminder :: "string \<Rightarrow> User \<Rightarrow> world \<Rightarrow> error option \<times> world" where
  "CreateDailyReminder topic user w =
     (case repo_GetUserEngagementStreak (User_ID user) ''practice'' w of (found, w1) \<Rightarrow>
        let currentStreak = (case found of Inl err \<Rightarrow> 0
                             | Inr streak \<Rightarrow> Streak_CurrentStreak streak);
            w2 = took_uuid w1; w3 = tick w2;
            notification = \<lparr>N_ID = new_uuid w1, N_UserID = User_ID user,
              N_Type = DailyReminder, N_Channel = ChannelInApp,
              N_Priority = PriorityMedium, N_Title = Some ''Time to Practice!'',
              N_Message = ''Hey '' @ User_Name user
                @ ''! It's time for your daily practice session. Keep your ''
                @ Sprint_d currentStreak @ ''-day streak alive! ''
                @ [CHR 0xC3, CHR 0xB0, CHR 0xC5, CHR 0xB8, CHR 0xE2, CHR 0x80, CHR 0x9D,
                   CHR 0xC2, CHR 0xA5],
              N_Metadata = [], N_CreatedAt = now w2, N_ScheduledFor = None,
              N_SentAt = None, N_DeliveredAt = None, N_ReadAt = None,
              N_Status = StatusQueued\<rparr>
        in (case repo_CreateNotification notification w3 of
              (Some err, w4) \<Rightarrow> (Some (Errorf ''failed to create daily reminder'' (Some err)), w4)
            | (None, w4) \<Rightarrow>
               (let w5 = tick w4;
                    outboxItem = \<lparr>Ob_ID = 0, Ob_NotificationID = N_ID notification,
                      Ob_Topic = topic, Ob_Payload = payload_of notification,
                      Ob_Published = False, Ob_CreatedAt = now w4, Ob_PublishedAt = None\<rparr>
                in (case repo_CreateOutboxEntry outboxItem w5 of
                      (Some err, w6) \<Rightarrow>
                        (Some (Errorf ''failed to create outbox entry for daily reminder''
                                 (Some err)), w6)
                    | (None, w6) \<Rightarrow> (None, w6)))))"

definition CreateStreakReminder :: "string \<Rightarrow> User \<Rightarrow> world \<Rightarrow> error option \<times> world" where
  "CreateStreakReminder topic user w =
     (case repo_GetUserEngagementStreak (User_ID user) ''practice'' w of
        (Inl err, w1) \<Rightarrow> (Some (Errorf ''failed to get user streak'' (Some err)), w1)
      | (Inr streak, w1) \<Rightarrow>
          if Streak_CurrentStreak streak = 0
          then (Some (Errorf ''user has no active streak'' None), w1)
          else
            let w2 = took_uuid w1; w3 = tick w2;
                notification = \<lparr>N_ID = new_uuid w1, N_UserID = User_ID user,
                  N_Type = StreakReminder, N_Channel = ChannelInApp,
                  N_Priority = PriorityHigh, N_Title = Some ''Don't Break Your Streak!'',
                  N_Message = User_Name user @ '', you haven't practiced today! Your ''
                    @ Sprint_d (Streak_CurrentStreak streak)
                    @ ''-day streak is at risk. Practice now to keep it going!'',
                  N_Metadata = [], N_CreatedAt = now w2, N_ScheduledFor = None,
                  N_SentAt = None, N_DeliveredAt = None, N_ReadAt = None,
                  N_Status = StatusQueued\<rparr>
            in (case repo_CreateNotification notification w3 of
                  (Some err, w4) \<Rightarrow>
                    (Some (Errorf ''failed to create streak reminder'' (Some err)), w4)
                | (None, w4) \<Rightarrow>
                   (let w5 = tick w4;
                        outboxItem = \<lparr>Ob_ID = 0, Ob_NotificationID = N_ID notification,
                          Ob_Topic = topic, Ob_Payload = payload_of notification,
                          Ob_Published = False, Ob_CreatedAt = now w4,
                          Ob_PublishedAt = None\<rparr>
                    in (case repo_CreateOutboxEntry outboxItem w5 of
                          (Some err, w6) \<Rightarrow>
                            (Some (Errorf ''failed to create outbox entry for streak reminder''
                                     (Some err)), w6)
                        | (None, w6) \<Rightarrow> (None, w6)))))"

text \<open>
  What a creator makes of the outbox: it leaves it as it was, or adds one entry that is
  not published and has no time of publication.
\<close>

definition inserted_unpublished :: "world \<Rightarrow> world \<Rightarrow> bool" where
  "inserted_unpublished w w' \<longleftrightarrow>
     outbox_notifications w' = outbox_notifications w
     \<or> (\<exists>entry. outbox_notifications w' = outbox_notifications w @ [entry]
           \<and> Ob_Published entry = False \<and> Ob_PublishedAt entry = None)"

section \<open>The consumer (cmd/consumer)\<close>

record ConsumerMessage =
  CM_Key :: string
  CM_Value :: string
  CM_Offset :: int

text \<open>
  The \<open>NotificationStore\<close> with what the consumer does besides: the messages it has
  marked in the session and the lines it has logged.
\<close>

record Consumer =
  data :: "string \<rightharpoonup> Notification list"
  marked :: "ConsumerMessage list"
  logged :: "string list"

definition Add :: "string \<Rightarrow> Notification \<Rightarrow> Consumer \<Rightarrow> Consumer" where
  "Add userID notification c =
     c\<lparr>data := (data c)(userID \<mapsto>
          (case data c userID of None \<Rightarrow> [] | Some ns \<Rightarrow> ns) @ [notification])\<rparr>"

definition Get :: "string \<Rightarrow> Consumer \<Rightarrow> Notification list" where
  "Get userID c = (case data c userID of None \<Rightarrow> [] | Some ns \<Rightarrow> ns)"

definition MarkMessage :: "ConsumerMessage \<Rightarrow> Consumer \<Rightarrow> Consumer" where
  "MarkMessage msg c = c\<lparr>marked := marked c @ [msg]\<rparr>"

text \<open>
  \<open>ConsumeClaim\<close> over the messages of the claim; \<open>json.Unmarshal\<close> into a
  \<open>models.Notification\<close> is the decoder \<open>unmarshal\<close> of the standard library.
\<close>

fun ConsumeClaim ::
  "(string \<Rightarrow> error + Notification) \<Rightarrow> ConsumerMessage list \<Rightarrow> Consumer \<Rightarrow> Consumer" where
  "ConsumeClaim unmarshal [] c = c"
| "ConsumeClaim unmarshal (msg # msgs) c =
     (let userID = CM_Key msg in
      case unmarshal (CM_Value msg) of
        Inl err \<Rightarrow> ConsumeClaim unmarshal msgs
                     (c\<lparr>logged := logged c @ [''failed to unmarshal notification'']\<rparr>)
      | Inr notification \<Rightarrow>
          ConsumeClaim unmarshal msgs (MarkMessage msg (Add userID notification c)))"

text \<open>
  The loop of \<open>setupConsumerGroup\<close>. A location is where the goroutine waits for the
  environment: for \<open>initializeConsumerGroup\<close> to return, for \<open>Consume\<close> to return, or
  in one of the two \<open>select\<close> statements for the timer or the context. An answer of the
  environment ends the wait. It says whether the awaited call returned an error, and
  whether the context is cancelled: for \<open>Consume\<close>, that \<open>ctx.Err()\<close> is not nil
  when it has returned; for a \<open>select\<close>, that the case taken is \<open>ctx.Done()\<close> and
  not the timer of \<open>backoff\<close> seconds. The trace keeps what the goroutine does
  between two waits.
\<close>

datatype location = Initializing | Backoff_after_init | Consuming | Backoff_after_consume
  | Returned

datatype action = Log string | Close | Wait_seconds nat

record answer =
  failed :: bool
  cancelled :: bool

record goroutine =
  at :: location
  trace :: "action list"

definition backoff :: nat where
  "backoff = 5"

fun setup_step :: "answer \<Rightarrow> goroutine \<Rightarrow> goroutine" where
  "setup_step e g = (case at g of
       Initializing \<Rightarrow>
         (if failed e
          then g\<lparr>at := Backoff_after_init, trace := trace g @ [Log ''initialization error'']\<rparr>
          else g\<lparr>at := Consuming\<rparr>)
     | Backoff_after_init \<Rightarrow>
         (if cancelled e then g\<lparr>at := Returned\<rparr>
          else g\<lparr>at := Initializing, trace := trace g @ [Wait_seconds backoff]\<rparr>)
     | Consuming \<Rightarrow>
         (if failed e
          then g\<lparr>at := Backoff_after_consume,
                 trace := trace g @ [Log ''error from consumer'', Close]\<rparr>
          else if cancelled e then g\<lparr>at := Returned, trace := trace g @ [Close]\<rparr>
          else g)
     | Backoff_after_consume \<Rightarrow>
         (if cancelled e then g\<lparr>at := Returned\<rparr>
          else g\<lparr>at := Initializing, trace := trace g @ [Wait_seconds backoff]\<rparr>)
     | Returned \<Rightarrow> g)"

declare setup_step.simps [simp del]

fun setupConsumerGroup :: "answer list \<Rightarrow> goroutine \<Rightarrow> goroutine" where
  "setupConsumerGroup [] g = g"
| "setupConsumerGroup (e # es) g = setupConsumerGroup es (setup_step e g)"

text \<open>The states of the specification.\<close>

datatype runtime_state = Disconnected | Connecting | Consuming_state | Terminated

fun state_of :: "location \<Rightarrow> runtime_state" where
  "state_of Initializing = Connecting"
| "state_of Backoff_after_init = Disconnected"
| "state_of Consuming = Consuming_state"
| "state_of Backoff_after_consume = Disconnected"
| "state_of Returned = Terminated"

text \<open>
  How many answers, at most, the goroutine still takes to return once the context is
  cancelled.
\<close>

fun answers_to_return :: "location \<Rightarrow> nat" where
  "answers_to_return Initializing = 3"
| "answers_to_return Consuming = 2"
| "answers_to_return Backoff_after_init = 1"
| "answers_to_return Backoff_after_consume = 1"
| "answers_to_return Returned = 0"

section \<open>JSONMap as a database value (pkg/models)\<close>


























section \<open>Example worlds\<close>

definition ada :: uuid where
  "ada = ''b0000000-0000-4000-8000-000000000001''"

definition bob :: uuid where
  "bob = ''b0000000-0000-4000-8000-000000000002''"

definition note_1 :: uuid where
  "note_1 = ''a0000000-0000-4000-8000-000000000001''"

definition note_2 :: uuid where
  "note_2 = ''a0000000-0000-4000-8000-000000000002''"

definition note_3 :: uuid where
  "note_3 = ''a0000000-0000-4000-8000-000000000003''"

text \<open>
  One user with the daily reminder enabled, empty tables otherwise, a database and a
  broker that answer, a clock at the start of day 20000 that advances by a second at
  each reading.
\<close>

definition world0 :: world where
  "world0 = \<lparr>users = [\<lparr>User_ID = ada, User_Name = ''Ada'', User_Email = ''ada@example.org''\<rparr>],
     user_notification_preferences =
       [\<lparr>Pref_UserID = ada, Pref_Type = ''daily_reminder'', Pref_Channel = ''in_app'',
         Pref_Enabled = True, Pref_QuietHoursStart = None, Pref_QuietHoursEnd = None,
         Pref_MaxPerDay = None, Pref_Metadata = [], Pref_UpdatedAt = 0\<rparr>],
     user_engagement_streaks = [],
     notifications = [],
     outbox_notifications = [],
     outbox_seq = 0,
     notification_delivery_attempts = [],
     broker_log = [],
     db_faults = [],
     send_faults = [],
     clock = (\<lambda>i. 1728000000 + int i),
     clock_reads = 0,
     uuids = (\<lambda>i. if i = 0 then note_1 else if i = 1 then note_2 else note_3),
     uuid_reads = 0,
     OUTBOX_IMMEDIATE_PUBLISH = []\<rparr>"

definition outbox_row :: "int \<Rightarrow> uuid \<Rightarrow> bool \<Rightarrow> time \<Rightarrow> OutboxNotification" where
  "outbox_row i notificationID published created =
     \<lparr>Ob_ID = i, Ob_NotificationID = notificationID, Ob_Topic = ''notifications'',
      Ob_Payload = [(''id'', JString notificationID), (''user_id'', JString ada)],
      Ob_Published = published, Ob_CreatedAt = created,
      Ob_PublishedAt = (if published then Some created else None)\<rparr>"

text \<open>Four outbox rows, the second one published, not in the order of their creation.\<close>

definition world_outbox :: world where
  "world_outbox = world0\<lparr>outbox_seq := 4, outbox_notifications :=
     [outbox_row 1 note_1 False 30, outbox_row 2 note_2 True 10,
      outbox_row 3 note_3 False 20, outbox_row 4 note_1 False 40]\<rparr>"

definition request_1 :: CreateNotificationRequest where
  "request_1 = \<lparr>Req_UserID = ada, Req_Type = AchievementUnlock, Req_Channel = ChannelInApp,
     Req_Priority = PriorityMedium, Req_Title = Some ''Practice Completed!'',
     Req_Message = ''Great job'', Req_Metadata = [], Req_ScheduledFor = None\<rparr>"

text \<open>The four outbox rows with a broker that takes one message and refuses the next.\<close>

definition world_outbox_failing :: world where
  "world_outbox_failing = world_outbox\<lparr>send_faults := [False, True]\<rparr>"

text \<open>Two notifications for the same user, created through the service.\<close>

definition world_two_notes :: world where
  "world_two_notes = snd (CreateNotification ''notifications'' request_1
     (snd (CreateNotification ''notifications'' request_1 world0)))"

text \<open>The database refuses its second statement.\<close>

definition world_second_statement_fails :: world where
  "world_second_statement_fails = world0\<lparr>db_faults := [False, True]\<rparr>"

text \<open>The service publishes right after the insert.\<close>

definition world_immediate :: world where
  "world_immediate = world0\<lparr>OUTBOX_IMMEDIATE_PUBLISH := ''TRUE''\<rparr>"

text \<open>
  A decoder that takes the empty object, giving the zero notification (the nil UUID in
  both ids, the zero time, January 1 of year 1, 00:00:00 UTC, as time of creation, the
  empty string elsewhere), and refuses any other text; a consumer that has seen nothing;
  three claimed messages, the second one not JSON.
\<close>

definition zero_notification :: Notification where
  "zero_notification = \<lparr>N_ID = ''00000000-0000-0000-0000-000000000000'',
     N_UserID = ''00000000-0000-0000-0000-000000000000'', N_Type = [], N_Channel = [],
     N_Priority = [], N_Title = None, N_Message = [], N_Metadata = [],
     N_CreatedAt = - 62135596800,
     N_ScheduledFor = None, N_SentAt = None, N_DeliveredAt = None, N_ReadAt = None,
     N_Status = []\<rparr>"

definition unmarshal_empty_object :: "string \<Rightarrow> error + Notification" where
  "unmarshal_empty_object v =
     (if v = ''{}'' then Inr zero_notification
      else Inl (Errorf ''invalid character'' None))"

definition consumer0 :: Consumer where
  "consumer0 = \<lparr>data = Map.empty, marked = [], logged = []\<rparr>"

definition message_1 :: ConsumerMessage where
  "message_1 = \<lparr>CM_Key = ada, CM_Value = ''{}'', CM_Offset = 1\<rparr>"

definition message_2 :: ConsumerMessage where
  "message_2 = \<lparr>CM_Key = ada, CM_Value = ''<html>'', CM_Offset = 2\<rparr>"

definition message_3 :: ConsumerMessage where
  "message_3 = \<lparr>CM_Key = bob, CM_Value = ''{}'', CM_Offset = 3\<rparr>"

text \<open>The goroutine at its start, and the four answers the tests below use.\<close>

definition goroutine0 :: goroutine where
  "goroutine0 = \<lparr>at = Initializing, trace = []\<rparr>"

definition fine :: answer where
  "fine = \<lparr>failed = False, cancelled = False\<rparr>"

definition broken :: answer where
  "broken = \<lparr>failed = True, cancelled = False\<rparr>"

definition fine_cancelled :: answer where
  "fine_cancelled = \<lparr>failed = False, cancelled = True\<rparr>"

definition broken_cancelled :: answer where
  "broken_cancelled = \<lparr>failed = True, cancelled = True\<rparr>"

text \<open>The user of \<open>world0\<close>, and \<open>world0\<close> with a clock that stays within day 20000.\<close>

definition user_ada :: User where
  "user_ada = \<lparr>User_ID = ada, User_Name = ''Ada'', User_Email = ''ada@example.org''\<rparr>"

definition world_day :: world where
  "world_day = world0\<lparr>clock := (\<lambda>i. 1728000000 + int (i mod 3600))\<rparr>"



section \<open>Paging defaults of GetUserNotifications\<close>

text \<open>
  C9. The service replaces a limit of 0 or less by 50 and a negative offset by 0, and
  calls the repository with exactly these values, so the repository is always called
  with a limit of at least 1 and an offset of at least 0.
\<close>

theorem GetUserNotifications_paging:
  "\<exists>l off. GetUserNotifications repository userID limit offset = repository userID l off
     \<and> l = (if limit \<le> 0 then 50 else limit)
     \<and> off = (if offset < 0 then 0 else offset)
     \<and> 1 \<le> l \<and> 0 \<le> off"
  by (simp add: GetUserNotifications_def Let_def)

theorem GetUserNotifications_paging_witness:
  "GetUserNotifications (\<lambda>userID l off. (userID, l, off)) ada 0 (- 3) = (ada, 50, 0)
   \<and> GetUserNotifications (\<lambda>userID l off. (userID, l, off)) ada 20 40 = (ada, 20, 40)"
  using GetUserNotifications_paging [of "\<lambda>userID l off. (userID, l, off)" ada 0 "- 3"]
    GetUserNotifications_paging [of "\<lambda>userID l off. (userID, l, off)" ada 20 40]
  by simp

section \<open>The fetch of the unpublished outbox entries\<close>

lemma sorted_take_older:
  assumes "sorted (map f xs)" "r \<in> set (take n xs)" "e \<in> set xs" "f e < f r"
  shows "e \<in> set (take n xs)"
proof (rule ccontr)
  assume "e \<notin> set (take n xs)"
  with assms(3) have "e \<in> set (drop n xs)"
    using set_append [of "take n xs" "drop n xs"] by (simp del: set_append)
  moreover have "sorted (map f (take n xs) @ map f (drop n xs))"
    using assms(1) by (simp add: map_append [symmetric])
  ultimately have "f r \<le> f e"
    using assms(2) by (simp add: sorted_append)
  with assms(4) show False by simp
qed

text \<open>
  C5. Whatever the store and the limit, \<open>GetUnpublishedOutbox\<close> answers when the
  database does and the limit is not negative, and what it returns are rows of the
  outbox that are not published, in the order of their creation time, at most
  \<open>limit\<close> of them, and with every unpublished row that is older than a returned one.
\<close>

theorem GetUnpublishedOutbox_oldest_first:
  "(db_ok w \<and> 0 \<le> limit \<longrightarrow> (\<exists>items. fst (repo_GetUnpublishedOutbox limit w) = Inr items)) \<and>
   (\<forall>items. fst (repo_GetUnpublishedOutbox limit w) = Inr items \<longrightarrow>
      (\<forall>r\<in>set items. r \<in> set (outbox_notifications w) \<and> \<not> Ob_Published r) \<and>
      sorted (map Ob_CreatedAt items) \<and> int (length items) \<le> limit \<and>
      (\<forall>r\<in>set items. \<forall>e\<in>set (outbox_notifications w).
          \<not> Ob_Published e \<and> Ob_CreatedAt e < Ob_CreatedAt r \<longrightarrow> e \<in> set items))"
proof -
  define U where "U = sort_key Ob_CreatedAt [r \<leftarrow> outbox_notifications w. \<not> Ob_Published r]"
  have srt: "sorted (map Ob_CreatedAt U)" by (simp add: U_def)
  have setU: "set U = {r \<in> set (outbox_notifications w). \<not> Ob_Published r}"
    by (simp add: U_def)
  have a: "\<forall>r\<in>set (take n U). r \<in> set (outbox_notifications w) \<and> \<not> Ob_Published r" for n
    using set_take_subset [of n U] setU by blast
  have b: "sorted (map Ob_CreatedAt (take n U))" for n
  proof -
    have "sorted (take n (map Ob_CreatedAt U))" using srt by (rule sorted_wrt_take)
    then show ?thesis by (simp only: take_map)
  qed
  have c: "\<forall>r\<in>set (take n U). \<forall>e\<in>set (outbox_notifications w).
          \<not> Ob_Published e \<and> Ob_CreatedAt e < Ob_CreatedAt r \<longrightarrow> e \<in> set (take n U)" for n
  proof (intro ballI impI)
    fix r e
    assume r: "r \<in> set (take n U)" and e: "e \<in> set (outbox_notifications w)"
      and old: "\<not> Ob_Published e \<and> Ob_CreatedAt e < Ob_CreatedAt r"
    from e old have "e \<in> set U" by (simp add: setU)
    moreover from old have "Ob_CreatedAt e < Ob_CreatedAt r" by simp
    ultimately show "e \<in> set (take n U)"
      using srt r sorted_take_older [of Ob_CreatedAt U r n e] by simp
  qed
  have d: "int (length (take (nat limit) U)) \<le> limit" if "0 \<le> limit"
    using that by simp
  have e: "fst (repo_GetUnpublishedOutbox limit w) =
     (if \<not> db_ok w \<or> limit < 0
      then Inl (Errorf ''failed to query unpublished outbox'' (Some DriverError))
      else Inr (take (nat limit) U))"
    by (simp add: repo_GetUnpublishedOutbox_def U_def)
  show ?thesis
  proof (cases "\<not> db_ok w \<or> limit < 0")
    case True
    then show ?thesis unfolding e by auto
  next
    case False
    then have f: "fst (repo_GetUnpublishedOutbox limit w) = Inr (take (nat limit) U)"
      unfolding e by simp
    have "0 \<le> limit" using False by simp
    note props = a [of "nat limit"] b [of "nat limit"] d [OF this] c [of "nat limit"]
    show ?thesis
      unfolding f using props by (intro conjI allI impI) (simp_all only: sum.inject simp_thms)
  qed
qed

lemma world_outbox_fetch:
  "fst (repo_GetUnpublishedOutbox 2 world_outbox) =
     Inr [outbox_row 3 note_3 False 20, outbox_row 1 note_1 False 30]"
  by (simp add: repo_GetUnpublishedOutbox_def world_outbox_def world0_def db_ok_def
      outbox_row_def)

theorem GetUnpublishedOutbox_oldest_first_witness:
  "db_ok world_outbox \<and> (0::int) \<le> 2
   \<and> fst (repo_GetUnpublishedOutbox 2 world_outbox) =
       Inr [outbox_row 3 note_3 False 20, outbox_row 1 note_1 False 30]
   \<and> outbox_row 1 note_1 False 30 \<in> set [outbox_row 3 note_3 False 20, outbox_row 1 note_1 False 30]
   \<and> outbox_row 3 note_3 False 20 \<in> set (outbox_notifications world_outbox)
   \<and> \<not> Ob_Published (outbox_row 3 note_3 False 20)
   \<and> Ob_CreatedAt (outbox_row 3 note_3 False 20) < Ob_CreatedAt (outbox_row 1 note_1 False 30)
   \<and> sorted (map Ob_CreatedAt [outbox_row 3 note_3 False 20, outbox_row 1 note_1 False 30])
   \<and> int (length [outbox_row 3 note_3 False 20, outbox_row 1 note_1 False 30]) \<le> 2"
  using GetUnpublishedOutbox_oldest_first [of world_outbox 2] world_outbox_fetch
  by (simp add: world_outbox_def world0_def db_ok_def outbox_row_def)

section \<open>The outbox publisher\<close>

lemmas env_defs = now_def tick_def new_uuid_def took_uuid_def db_ok_def db_next_def
  send_ok_def send_next_def

lemma marked_as_published_trans:
  "marked_as_published S1 a b \<Longrightarrow> marked_as_published S2 b c \<Longrightarrow>
   marked_as_published (S1 \<union> S2) a c"
  by (auto simp: marked_as_published_def split: if_splits)

lemma marked_as_published_map:
  "list_all2 (marked_as_published {i}) rows
     (map (\<lambda>r. if Ob_ID r = i then r\<lparr>Ob_Published := True, Ob_PublishedAt := Some t\<rparr> else r) rows)"
  by (induction rows) (auto simp: marked_as_published_def)

lemma marked_as_published_refl: "list_all2 (marked_as_published {}) rows rows"
  by (induction rows) (auto simp: marked_as_published_def)

lemma db_ok_no_faults: "\<forall>f\<in>set (db_faults w). \<not> f \<Longrightarrow> db_ok w"
  by (cases "db_faults w") (auto simp: db_ok_def)

lemma ProcessOutbox_items_step:
  assumes "send_faults w = False # sf" "\<forall>f\<in>set (db_faults w). \<not> f"
  shows "\<exists>w'. ProcessOutbox_items (item # rest) w = ProcessOutbox_items rest w'
           \<and> send_faults w' = sf \<and> (\<forall>f\<in>set (db_faults w'). \<not> f)
           \<and> broker_log w' = broker_log w @ [outbox_message item]
           \<and> list_all2 (marked_as_published {Ob_ID item})
                (outbox_notifications w) (outbox_notifications w')"
proof -
  define w1 where "w1 = (send_next w)\<lparr>broker_log := broker_log w @ [outbox_message item]\<rparr>"
  define w2 where "w2 = (db_next (tick w1))\<lparr>outbox_notifications :=
      map (\<lambda>r. if Ob_ID r = Ob_ID item
                then r\<lparr>Ob_Published := True, Ob_PublishedAt := Some (now w1)\<rparr> else r)
          (outbox_notifications w1)\<rparr>"
  have sok: "send_ok w" using assms(1) by (simp add: send_ok_def)
  have "\<forall>f\<in>set (db_faults (tick w1)). \<not> f"
    using assms(2) by (simp add: w1_def tick_def send_next_def)
  then have ok: "db_ok (tick w1)" by (rule db_ok_no_faults)
  have s1: "SendMessage (outbox_message item) w = (None, w1)"
    using sok by (simp add: SendMessage_def w1_def)
  have s2: "repo_MarkOutboxPublished (Ob_ID item) w1 = (None, w2)"
    using ok by (simp add: repo_MarkOutboxPublished_def Let_def w2_def)
  have eq: "ProcessOutbox_items (item # rest) w = ProcessOutbox_items rest w2"
    by (simp add: s1 s2)
  have sf: "send_faults w2 = sf"
    using assms(1) by (simp add: w2_def w1_def db_next_def tick_def send_next_def)
  have nf: "\<forall>f\<in>set (db_faults w2). \<not> f"
    using assms(2) by (cases "db_faults w") (auto simp: w2_def w1_def db_next_def tick_def send_next_def)
  have bl: "broker_log w2 = broker_log w @ [outbox_message item]"
    by (simp add: w2_def w1_def db_next_def tick_def send_next_def)
  have ob: "outbox_notifications w1 = outbox_notifications w"
    by (simp add: w1_def send_next_def)
  have mk: "list_all2 (marked_as_published {Ob_ID item})
                (outbox_notifications w) (outbox_notifications w2)"
    by (simp add: w2_def ob marked_as_published_map)
  from eq sf nf bl mk show ?thesis by blast
qed

lemma ProcessOutbox_items_prefix:
  assumes "send_faults w = replicate (length pre) False @ sf" "\<forall>f\<in>set (db_faults w). \<not> f"
  shows "\<exists>w'. ProcessOutbox_items (pre @ rest) w = ProcessOutbox_items rest w'
           \<and> send_faults w' = sf \<and> (\<forall>f\<in>set (db_faults w'). \<not> f)
           \<and> broker_log w' = broker_log w @ map outbox_message pre
           \<and> list_all2 (marked_as_published (Ob_ID ` set pre))
                (outbox_notifications w) (outbox_notifications w')"
  using assms
proof (induction pre arbitrary: w)
  case Nil
  then show ?case by (auto simp: marked_as_published_refl)
next
  case (Cons item pre)
  from Cons.prems have sf: "send_faults w = False # (replicate (length pre) False @ sf)"
    by simp
  from ProcessOutbox_items_step [OF sf Cons.prems(2), of item "pre @ rest"]
  obtain w1 where w1: "ProcessOutbox_items (item # pre @ rest) w = ProcessOutbox_items (pre @ rest) w1"
    "send_faults w1 = replicate (length pre) False @ sf" "\<forall>f\<in>set (db_faults w1). \<not> f"
    "broker_log w1 = broker_log w @ [outbox_message item]"
    "list_all2 (marked_as_published {Ob_ID item}) (outbox_notifications w) (outbox_notifications w1)"
    by blast
  from Cons.IH [OF w1(2) w1(3)]
  obtain w' where w': "ProcessOutbox_items (pre @ rest) w1 = ProcessOutbox_items rest w'"
    "send_faults w' = sf" "\<forall>f\<in>set (db_faults w'). \<not> f"
    "broker_log w' = broker_log w1 @ map outbox_message pre"
    "list_all2 (marked_as_published (Ob_ID ` set pre)) (outbox_notifications w1) (outbox_notifications w')"
    by blast
  have "list_all2 (marked_as_published ({Ob_ID item} \<union> Ob_ID ` set pre))
          (outbox_notifications w) (outbox_notifications w')"
    using w1(5) w'(5) marked_as_published_trans
    by (rule list_all2_trans [rotated])
  then show ?case
    using w1 w' by (intro exI [of _ w']) simp
qed

lemma ProcessOutbox_items_send_fails:
  assumes "send_faults w = True # sf"
  shows "ProcessOutbox_items (item # rest) w =
           (Some (Errorf ''failed to send message to Kafka'' (Some KafkaError)), send_next w)"
  using assms by (simp add: SendMessage_def send_ok_def)

lemma filter_marked:
  "list_all2 (marked_as_published S) rows rows' \<Longrightarrow>
   [r \<leftarrow> rows'. \<not> Ob_Published r] = [r \<leftarrow> rows. \<not> Ob_Published r \<and> Ob_ID r \<notin> S]"
  by (induction rule: list_all2_induct) (auto simp: marked_as_published_def split: if_splits)

lemma filter_not_in_take:
  "distinct (map f xs) \<Longrightarrow> [x \<leftarrow> xs. f x \<notin> f ` set (take k xs)] = drop k xs"
proof (induction xs arbitrary: k)
  case Nil
  then show ?case by simp
next
  case (Cons a xs)
  show ?case
  proof (cases k)
    case 0
    then show ?thesis by simp
  next
    case (Suc j)
    have "[x \<leftarrow> xs. f x \<notin> f ` set (take k (a # xs))] = [x \<leftarrow> xs. f x \<notin> f ` set (take j xs)]"
    proof (intro filter_cong refl)
      fix x assume "x \<in> set xs"
      then have "f x \<in> f ` set xs" by (rule imageI)
      moreover have "f a \<notin> f ` set xs" using Cons.prems by simp
      ultimately have "f x \<noteq> f a" by (rule_tac notI) simp
      then show "(f x \<notin> f ` set (take k (a # xs))) = (f x \<notin> f ` set (take j xs))"
        using Suc by simp
    qed
    also have "\<dots> = drop j xs" using Cons.IH Cons.prems by simp
    finally show ?thesis using Suc by simp
  qed
qed

lemma marked_in_set:
  assumes "list_all2 (marked_as_published S) rows rows'" "r \<in> set rows"
  shows "\<exists>r'\<in>set rows'. marked_as_published S r r'"
  using assms by (induction rule: list_all2_induct) auto

lemma sorted_unpublished_after:
  assumes "list_all2 (marked_as_published (Ob_ID ` set (take k U))) rows rows'"
    and "U = sort_key Ob_CreatedAt [r \<leftarrow> rows. \<not> Ob_Published r]"
    and "distinct (map Ob_ID rows)"
  shows "sort_key Ob_CreatedAt [r \<leftarrow> rows'. \<not> Ob_Published r] = drop k U"
proof -
  have dU: "distinct (map Ob_ID U)"
    using assms(3) unfolding assms(2) by (simp add: distinct_map inj_on_def)
  have "sort_key Ob_CreatedAt [r \<leftarrow> rows'. \<not> Ob_Published r] =
        sort_key Ob_CreatedAt [r \<leftarrow> [r \<leftarrow> rows. \<not> Ob_Published r]. Ob_ID r \<notin> Ob_ID ` set (take k U)]"
    using filter_marked [OF assms(1)] by (simp add: conj_commute)
  also have "\<dots> = [r \<leftarrow> U. Ob_ID r \<notin> Ob_ID ` set (take k U)]"
    unfolding assms(2) by (rule filter_sort [symmetric])
  also have "\<dots> = drop k U" using dU by (rule filter_not_in_take)
  finally show ?thesis .
qed

lemma remainder_heads_next:
  "take (length (take m xs) - k) (take m (drop k xs)) = drop k (take m xs)"
proof (cases "m \<le> length xs")
  case True
  then show ?thesis by (simp add: drop_take min_def)
next
  case False
  then show ?thesis by (simp add: drop_take min_def)
qed

lemma db_next_no_faults: "\<forall>f\<in>set (db_faults w). \<not> f \<Longrightarrow> \<forall>f\<in>set (db_faults (db_next w)). \<not> f"
  by (cases "db_faults w") (auto simp: db_next_def)

text \<open>
  C2. Take a tick of \<open>ProcessOutbox\<close> whose batch is \<open>batch\<close>, in a store where the
  ids of the outbox are distinct and the database answers, and let the first \<open>k\<close>
  sends succeed and the next one fail (the attempt of index \<open>k\<close>, counting from 0).
  Then the tick returns the send error; the broker has received the messages of the first
  \<open>k\<close> entries and nothing else; these \<open>k\<close> entries are marked published; the entries
  from the failing one on are in the outbox as they were, unpublished; and the next fetch
  starts with them.
\<close>

theorem ProcessOutbox_stops_at_first_failure:
  assumes pk: "distinct (map Ob_ID (outbox_notifications w))"
    and answers: "db_answers w"
    and batch: "fst (repo_GetUnpublishedOutbox 100 w) = Inr batch"
    and k: "k < length batch"
    and sends: "send_faults w = replicate k False @ True # sf"
  shows "fst (ProcessOutbox w) = Some (Errorf ''failed to send message to Kafka'' (Some KafkaError))
    \<and> broker_log (snd (ProcessOutbox w)) = broker_log w @ map outbox_message (take k batch)
    \<and> (\<forall>r\<in>set (take k batch). \<exists>t. r\<lparr>Ob_Published := True, Ob_PublishedAt := Some t\<rparr>
           \<in> set (outbox_notifications (snd (ProcessOutbox w))))
    \<and> (\<forall>r\<in>set (drop k batch). \<not> Ob_Published r
           \<and> r \<in> set (outbox_notifications (snd (ProcessOutbox w))))
    \<and> (\<exists>next. fst (repo_GetUnpublishedOutbox 100 (snd (ProcessOutbox w))) = Inr next
           \<and> take (length batch - k) next = drop k batch)"
proof -
  define rows where "rows = outbox_notifications w"
  define U where "U = sort_key Ob_CreatedAt [r \<leftarrow> rows. \<not> Ob_Published r]"
  have db: "\<forall>f\<in>set (db_faults w). \<not> f" using answers by (simp add: db_answers_def)
  have ok: "db_ok w" using db by (rule db_ok_no_faults)
  have batch_eq: "batch = take 100 U"
    using batch ok by (simp add: repo_GetUnpublishedOutbox_def U_def rows_def)
  have fetch: "repo_GetUnpublishedOutbox 100 w = (Inr batch, db_next w)"
    using ok by (simp add: repo_GetUnpublishedOutbox_def batch_eq U_def rows_def)
  have setU: "set U = {r \<in> set rows. \<not> Ob_Published r}" by (simp add: U_def)
  have dU: "distinct (map Ob_ID U)"
    using pk unfolding U_def rows_def by (simp add: distinct_map inj_on_def)
  have "k \<le> 100" using k by (simp add: batch_eq)
  then have tk: "take k batch = take k U"
    by (simp add: batch_eq min_def)
  have split: "batch = take k batch @ batch ! k # drop (Suc k) batch"
    using k by (rule id_take_nth_drop)
  have len: "length (take k batch) = k" using k by simp
  have s0: "send_faults (db_next w) = replicate (length (take k batch)) False @ True # sf"
    using sends len by (simp add: db_next_def)
  have d0: "\<forall>f\<in>set (db_faults (db_next w)). \<not> f" using db by (rule db_next_no_faults)
  from ProcessOutbox_items_prefix [OF s0 d0, of "batch ! k # drop (Suc k) batch"]
  obtain w' where w': "ProcessOutbox_items (take k batch @ batch ! k # drop (Suc k) batch) (db_next w)
         = ProcessOutbox_items (batch ! k # drop (Suc k) batch) w'"
    "send_faults w' = True # sf" "\<forall>f\<in>set (db_faults w'). \<not> f"
    "broker_log w' = broker_log (db_next w) @ map outbox_message (take k batch)"
    "list_all2 (marked_as_published (Ob_ID ` set (take k batch)))
        (outbox_notifications (db_next w)) (outbox_notifications w')"
    by blast
  define wf where "wf = send_next w'"
  have run: "ProcessOutbox w =
      (Some (Errorf ''failed to send message to Kafka'' (Some KafkaError)), wf)"
    using w'(1) ProcessOutbox_items_send_fails [OF w'(2)] split
    by (simp add: ProcessOutbox_def fetch wf_def)
  have log: "broker_log wf = broker_log w @ map outbox_message (take k batch)"
    using w'(4) by (simp add: wf_def send_next_def db_next_def)
  have mk: "list_all2 (marked_as_published (Ob_ID ` set (take k U))) rows (outbox_notifications wf)"
    using w'(5) by (simp add: wf_def send_next_def db_next_def rows_def tk)
  have dbf: "db_ok wf"
    using w'(3) by (intro db_ok_no_faults) (simp add: wf_def send_next_def)
  have c3: "\<exists>t. r\<lparr>Ob_Published := True, Ob_PublishedAt := Some t\<rparr> \<in> set (outbox_notifications wf)"
    if "r \<in> set (take k batch)" for r
  proof -
    have rU: "r \<in> set (take k U)" using that tk by simp
    then have "r \<in> set rows" using setU set_take_subset [of k U] by blast
    from marked_in_set [OF mk this] obtain r' where
      r': "r' \<in> set (outbox_notifications wf)" "marked_as_published (Ob_ID ` set (take k U)) r r'"
      by blast
    have "Ob_ID r \<in> Ob_ID ` set (take k U)" using rU by (rule imageI)
    with r'(2) obtain t where "r' = r\<lparr>Ob_Published := True, Ob_PublishedAt := Some t\<rparr>"
      by (auto simp: marked_as_published_def)
    with r'(1) show ?thesis by blast
  qed
  have c4: "\<not> Ob_Published r \<and> r \<in> set (outbox_notifications wf)"
    if "r \<in> set (drop k batch)" for r
  proof -
    have rb: "r \<in> set batch" using that set_drop_subset [of k batch] by blast
    then have rU: "r \<in> set U" using set_take_subset [of 100 U] by (auto simp: batch_eq)
    then have rr: "r \<in> set rows" and np: "\<not> Ob_Published r" using setU by auto
    have "distinct (map Ob_ID batch)"
      unfolding batch_eq using dU by (simp add: take_map [symmetric] distinct_take del: take_map)
    then have "distinct (map Ob_ID (take k batch) @ map Ob_ID (drop k batch))"
      by (simp add: map_append [symmetric] del: map_append)
    then have "Ob_ID ` set (take k batch) \<inter> Ob_ID ` set (drop k batch) = {}"
      by simp
    then have "Ob_ID r \<notin> Ob_ID ` set (take k U)" using that tk by auto
    moreover from marked_in_set [OF mk rr] obtain r' where
      r': "r' \<in> set (outbox_notifications wf)" "marked_as_published (Ob_ID ` set (take k U)) r r'"
      by blast
    ultimately have "r' = r" by (simp add: marked_as_published_def)
    with r'(1) np show ?thesis by simp
  qed
  have next_U: "sort_key Ob_CreatedAt [r \<leftarrow> outbox_notifications wf. \<not> Ob_Published r] = drop k U"
    using mk U_def pk [folded rows_def] by (rule sorted_unpublished_after)
  have c5: "fst (repo_GetUnpublishedOutbox 100 wf) = Inr (take 100 (drop k U))"
    using dbf by (simp add: repo_GetUnpublishedOutbox_def next_U)
  have c5': "take (length batch - k) (take 100 (drop k U)) = drop k batch"
    unfolding batch_eq by (rule remainder_heads_next)
  show ?thesis
    unfolding run fst_conv snd_conv using log c3 c4 c5 c5' by blast
qed

lemmas consts_defs = DailyReminder_def StreakReminder_def LastChanceAlert_def
  AchievementUnlock_def XPGoalReminder_def LeagueUpdate_def WeMissYou_def
  EventNotification_def NewCourse_def PracticeNeeded_def WeeklyRecap_def
  ChannelInApp_def ChannelPush_def ChannelEmail_def ChannelSMS_def
  StatusQueued_def PriorityMedium_def

lemmas outbox_eval = world_outbox_failing_def world_outbox_def world0_def outbox_row_def
  ProcessOutbox_def repo_GetUnpublishedOutbox_def SendMessage_def repo_MarkOutboxPublished_def
  env_defs Let_def db_answers_def

theorem ProcessOutbox_stops_at_first_failure_witness:
  "distinct (map Ob_ID (outbox_notifications world_outbox_failing))
   \<and> db_answers world_outbox_failing
   \<and> fst (repo_GetUnpublishedOutbox 100 world_outbox_failing) =
       Inr [outbox_row 3 note_3 False 20, outbox_row 1 note_1 False 30,
            outbox_row 4 note_1 False 40]
   \<and> send_faults world_outbox_failing = replicate 1 False @ True # []
   \<and> fst (ProcessOutbox world_outbox_failing) =
       Some (Errorf ''failed to send message to Kafka'' (Some KafkaError))
   \<and> broker_log (snd (ProcessOutbox world_outbox_failing)) =
       [outbox_message (outbox_row 3 note_3 False 20)]
   \<and> map Ob_Published (outbox_notifications (snd (ProcessOutbox world_outbox_failing))) =
       [False, True, True, False]
   \<and> fst (repo_GetUnpublishedOutbox 100 (snd (ProcessOutbox world_outbox_failing))) =
       Inr [outbox_row 1 note_1 False 30, outbox_row 4 note_1 False 40]"
  using ProcessOutbox_stops_at_first_failure [of world_outbox_failing
      "[outbox_row 3 note_3 False 20, outbox_row 1 note_1 False 30,
        outbox_row 4 note_1 False 40]" 1 "[]"]
  by (simp add: outbox_eval)

lemmas create_eval = CreateNotification_def request_1_def world0_def
  IsValidNotificationType_def IsValidChannel_def consts_defs env_defs
  repo_CreateNotification_def repo_CreateOutboxEntry_def Let_def EqualFold_def payload_of_def
  uuid_String_def ProcessOutbox_def repo_GetUnpublishedOutbox_def SendMessage_def
  repo_MarkOutboxPublished_def mustMarshalJSON_def outbox_message_def lower_ascii_def

text \<open>
  C1, evaluated on the code. Two notifications are created for the same recipient and
  one tick of \<open>ProcessOutbox\<close> publishes both. The value of each message is the payload
  with the id of its notification and the id of the recipient, but the key of each message
  is the id of the notification, not of the recipient: the two messages of the one
  recipient have different keys.
\<close>

theorem ProcessOutbox_key_is_notification_id:
  "map N_UserID (notifications world_two_notes) = [ada, ada]
   \<and> fst (ProcessOutbox world_two_notes) = None
   \<and> map Msg_Key (broker_log (snd (ProcessOutbox world_two_notes))) = [note_1, note_2]
   \<and> map (\<lambda>m. map_of (Msg_Value m) ''user_id'') (broker_log (snd (ProcessOutbox world_two_notes)))
       = [Some (JString ada), Some (JString ada)]
   \<and> map (\<lambda>m. map_of (Msg_Value m) ''id'') (broker_log (snd (ProcessOutbox world_two_notes)))
       = [Some (JString note_1), Some (JString note_2)]
   \<and> note_1 \<noteq> ada \<and> note_2 \<noteq> ada \<and> note_1 \<noteq> note_2"
  by (simp add: world_two_notes_def create_eval ada_def note_1_def note_2_def)

section \<open>The two writes of CreateNotification\<close>

lemma same_entry_refl: "list_all2 same_entry rows rows"
  by (simp add: list_all2_refl same_entry_def)

lemma same_entry_trans:
  assumes "list_all2 same_entry xs ys" "list_all2 same_entry ys zs"
  shows "list_all2 same_entry xs zs"
proof -
  have "\<And>a b c. same_entry a b \<Longrightarrow> same_entry b c \<Longrightarrow> same_entry a c"
    by (simp add: same_entry_def)
  from this assms show ?thesis by (rule list_all2_trans)
qed

lemma SendMessage_keeps:
  "notifications (snd (SendMessage m w)) = notifications w"
  "outbox_notifications (snd (SendMessage m w)) = outbox_notifications w"
  by (simp_all add: SendMessage_def send_next_def)

lemma MarkOutboxPublished_keeps:
  "notifications (snd (repo_MarkOutboxPublished i w)) = notifications w"
  "list_all2 same_entry (outbox_notifications w)
     (outbox_notifications (snd (repo_MarkOutboxPublished i w)))"
  by (simp_all add: repo_MarkOutboxPublished_def Let_def db_next_def tick_def
      list_all2_conv_all_nth same_entry_def)

lemma ProcessOutbox_items_keeps:
  "notifications (snd (ProcessOutbox_items items w)) = notifications w
   \<and> list_all2 same_entry (outbox_notifications w)
        (outbox_notifications (snd (ProcessOutbox_items items w)))"
proof (induction items arbitrary: w)
  case Nil
  show ?case by (simp add: same_entry_refl)
next
  case (Cons item items)
  define w1 where "w1 = snd (SendMessage (outbox_message item) w)"
  define w2 where "w2 = snd (repo_MarkOutboxPublished (Ob_ID item) w1)"
  have k1: "notifications w1 = notifications w" "outbox_notifications w1 = outbox_notifications w"
    by (simp_all add: w1_def SendMessage_keeps)
  have k2: "notifications w2 = notifications w"
    "list_all2 same_entry (outbox_notifications w) (outbox_notifications w2)"
    using MarkOutboxPublished_keeps [where i = "Ob_ID item" and w = w1] by (simp_all add: w2_def k1)
  have k3: "notifications (snd (ProcessOutbox_items items w2)) = notifications w"
    "list_all2 same_entry (outbox_notifications w)
        (outbox_notifications (snd (ProcessOutbox_items items w2)))"
    using Cons.IH [of w2] k2 same_entry_trans by (simp, blast)
  show ?case
    using k1 k2 k3
    by (cases "SendMessage (outbox_message item) w";
        cases "repo_MarkOutboxPublished (Ob_ID item) w1")
       (auto simp: w1_def w2_def same_entry_refl split: option.splits)
qed

lemma ProcessOutbox_keeps:
  "notifications (snd (ProcessOutbox w)) = notifications w
   \<and> list_all2 same_entry (outbox_notifications w) (outbox_notifications (snd (ProcessOutbox w)))"
proof -
  have "notifications (db_next w) = notifications w"
    "outbox_notifications (db_next w) = outbox_notifications w"
    by (simp_all add: db_next_def)
  then show ?thesis
    using ProcessOutbox_items_keeps [of _ "db_next w"]
    by (simp add: ProcessOutbox_def repo_GetUnpublishedOutbox_def same_entry_refl)
qed

lemma list_all2_in_set:
  assumes "list_all2 P xs ys" "x \<in> set xs"
  shows "\<exists>y\<in>set ys. P x y"
  using assms by (induction rule: list_all2_induct) auto

lemma entry_survives_ProcessOutbox:
  assumes "entry \<in> set (outbox_notifications w)"
  shows "\<exists>e\<in>set (outbox_notifications (snd (ProcessOutbox w))).
           Ob_NotificationID e = Ob_NotificationID entry \<and> Ob_Payload e = Ob_Payload entry
           \<and> Ob_Topic e = Ob_Topic entry"
proof -
  from ProcessOutbox_keeps [of w]
  have "list_all2 same_entry (outbox_notifications w) (outbox_notifications (snd (ProcessOutbox w)))"
    by simp
  from list_all2_in_set [OF this assms]
  obtain e where "e \<in> set (outbox_notifications (snd (ProcessOutbox w)))" "same_entry entry e"
    by (elim bexE)
  then show ?thesis by (intro bexI [of _ e]) (simp_all add: same_entry_def)
qed

text \<open>
  C3, amended. After a successful \<open>CreateNotification\<close> the notification is in the
  store, and so is an outbox entry with its id and its payload. The two rows are written
  by two statements: when the type or the channel is invalid, or the insert of the
  notification fails, the store is as it was; when the insert of the outbox entry fails,
  the call returns that error, the notification stays in the store and the outbox is as it
  was.
\<close>

theorem CreateNotification_two_writes:
  "(case CreateNotification topic req w of
      (Inr n, w') \<Rightarrow>
         notifications w' = notifications w @ [n]
         \<and> (\<exists>entry\<in>set (outbox_notifications w'). Ob_NotificationID entry = N_ID n
               \<and> Ob_Payload entry = payload_of n \<and> Ob_Topic entry = topic)
    | (Inl err, w') \<Rightarrow>
         (if err = Errorf ''failed to create outbox entry''
                     (Some (Errorf ''failed to create outbox entry'' (Some DriverError)))
          then (\<exists>n. notifications w' = notifications w @ [n] \<and> N_UserID n = Req_UserID req)
               \<and> outbox_notifications w' = outbox_notifications w
          else same_store w w'))"
proof (cases "IsValidNotificationType (Req_Type req) \<and> IsValidChannel (Req_Channel req)")
  case False
  then show ?thesis by (auto simp: CreateNotification_def same_store_def)
next
  case valid: True
  define w2 where "w2 = tick (took_uuid w)"
  define n where "n = \<lparr>N_ID = new_uuid w, N_UserID = Req_UserID req,
              N_Type = Req_Type req, N_Channel = Req_Channel req,
              N_Priority = Req_Priority req, N_Title = Req_Title req,
              N_Message = Req_Message req, N_Metadata = Req_Metadata req,
              N_CreatedAt = now (took_uuid w), N_ScheduledFor = Req_ScheduledFor req,
              N_SentAt = None, N_DeliveredAt = None, N_ReadAt = None,
              N_Status = StatusQueued\<rparr>"
  have w2: "notifications w2 = notifications w" "outbox_notifications w2 = outbox_notifications w"
    "same_store w w2" "same_store w (db_next w2)"
    by (simp_all add: w2_def tick_def took_uuid_def same_store_def db_next_def)
  show ?thesis
  proof (cases "db_ok w2")
    case False
    then have "CreateNotification topic req w =
        (Inl (Errorf ''failed to create notification''
               (Some (Errorf ''failed to create notification'' (Some DriverError)))), db_next w2)"
      using valid by (simp add: CreateNotification_def Let_def repo_CreateNotification_def w2_def)
    then show ?thesis using w2 by simp
  next
    case ok2: True
    define w3 where "w3 = (db_next w2)\<lparr>notifications := notifications w2 @ [n]\<rparr>"
    have c3: "repo_CreateNotification n w2 = (None, w3)"
      using ok2 by (simp add: repo_CreateNotification_def w3_def n_def)
    define w4 where "w4 = tick w3"
    define item where "item = \<lparr>Ob_ID = 0, Ob_NotificationID = N_ID n,
                     Ob_Topic = topic, Ob_Payload = payload_of n,
                     Ob_Published = False, Ob_CreatedAt = now w3, Ob_PublishedAt = None\<rparr>"
    have w4: "notifications w4 = notifications w @ [n]"
      "outbox_notifications w4 = outbox_notifications w"
      by (simp_all add: w4_def w3_def tick_def db_next_def w2)
    show ?thesis
    proof (cases "db_ok w4")
      case False
      then have "CreateNotification topic req w =
        (Inl (Errorf ''failed to create outbox entry''
               (Some (Errorf ''failed to create outbox entry'' (Some DriverError)))), db_next w4)"
        using valid c3
        by (simp add: CreateNotification_def Let_def repo_CreateOutboxEntry_def
            w2_def [symmetric] n_def [symmetric] w4_def [symmetric] item_def [symmetric])
      moreover have "notifications (db_next w4) = notifications w @ [n]"
        "outbox_notifications (db_next w4) = outbox_notifications w"
        using w4 by (simp_all add: db_next_def)
      moreover have "N_UserID n = Req_UserID req" by (simp add: n_def)
      ultimately show ?thesis by simp
    next
      case ok4: True
      define entry where "entry = item\<lparr>Ob_ID := outbox_seq w4 + 1, Ob_PublishedAt := None\<rparr>"
      define w5 where "w5 = (db_next w4)\<lparr>outbox_seq := outbox_seq w4 + 1,
              outbox_notifications := outbox_notifications w4 @ [entry]\<rparr>"
      have c5: "repo_CreateOutboxEntry item w4 = (None, w5)"
        using ok4 by (simp add: repo_CreateOutboxEntry_def w5_def entry_def)
      have run: "CreateNotification topic req w =
          (Inr n, if EqualFold (OUTBOX_IMMEDIATE_PUBLISH w5) ''true''
                  then snd (ProcessOutbox w5) else w5)"
        using valid c3 c5
        by (simp add: CreateNotification_def Let_def
            w2_def [symmetric] n_def [symmetric] w4_def [symmetric] item_def [symmetric])
      have w5: "notifications w5 = notifications w @ [n]" "entry \<in> set (outbox_notifications w5)"
        using w4 by (simp_all add: w5_def db_next_def)
      have e: "Ob_NotificationID entry = N_ID n" "Ob_Payload entry = payload_of n"
        "Ob_Topic entry = topic"
        by (simp_all add: entry_def item_def)
      show ?thesis
      proof (cases "EqualFold (OUTBOX_IMMEDIATE_PUBLISH w5) ''true''")
        case True
        then show ?thesis
          using run w5 e ProcessOutbox_keeps [of w5] entry_survives_ProcessOutbox [OF w5(2)]
          by simp
      next
        case False
        then show ?thesis using run w5 e by auto
      qed
    qed
  qed
qed

theorem CreateNotification_two_writes_witness:
  "map N_ID (notifications (snd (CreateNotification ''notifications'' request_1 world_immediate)))
     = [note_1]
   \<and> map Ob_NotificationID
        (outbox_notifications (snd (CreateNotification ''notifications'' request_1 world_immediate)))
     = [note_1]
   \<and> map Ob_Published
        (outbox_notifications (snd (CreateNotification ''notifications'' request_1 world_immediate)))
     = [True]
   \<and> map N_ID (notifications
        (snd (CreateNotification ''notifications'' request_1 world_second_statement_fails)))
     = [note_1]"
  using CreateNotification_two_writes
      [where topic = "''notifications''" and req = request_1 and w = world_immediate]
    CreateNotification_two_writes
      [where topic = "''notifications''" and req = request_1
         and w = world_second_statement_fails]
  by (simp add: create_eval world_immediate_def world_second_statement_fails_def)

text \<open>
  C3 as stated fails: the database takes the insert of the notification and refuses the
  insert of the outbox entry. The call returns an error and the store has changed: it
  holds the notification, and no outbox entry for it.
\<close>

theorem CreateNotification_not_atomic:
  "fst (CreateNotification ''notifications'' request_1 world_second_statement_fails) =
     Inl (Errorf ''failed to create outbox entry''
           (Some (Errorf ''failed to create outbox entry'' (Some DriverError))))
   \<and> notifications world_second_statement_fails = []
   \<and> map N_ID (notifications
        (snd (CreateNotification ''notifications'' request_1 world_second_statement_fails)))
     = [note_1]
   \<and> outbox_notifications
        (snd (CreateNotification ''notifications'' request_1 world_second_statement_fails)) = []
   \<and> \<not> same_store world_second_statement_fails
        (snd (CreateNotification ''notifications'' request_1 world_second_statement_fails))"
  by (simp add: create_eval world_second_statement_fails_def same_store_def)

section \<open>The published flag\<close>

lemma published_kept_refl: "list_all2 published_kept rows rows"
  by (simp add: list_all2_refl published_kept_def)

lemma published_kept_same: "list_all2 published_kept rows (take (length rows) rows)"
  by (simp add: published_kept_refl)

lemma published_kept_append: "list_all2 published_kept rows (take (length rows) (rows @ [r]))"
  by (simp add: published_kept_refl)

lemma published_kept_mark:
  "list_all2 published_kept rows
     (map (\<lambda>r. if Ob_ID r = i then r\<lparr>Ob_Published := True, Ob_PublishedAt := t\<rparr> else r) rows)"
  by (simp add: list_all2_conv_all_nth published_kept_def)

lemma published_kept_trans:
  assumes "list_all2 published_kept xs ys" "list_all2 published_kept ys zs"
  shows "list_all2 published_kept xs zs"
proof -
  have "\<And>a b c. published_kept a b \<Longrightarrow> published_kept b c \<Longrightarrow> published_kept a c"
    by (simp add: published_kept_def)
  from this assms show ?thesis by (rule list_all2_trans)
qed

lemma outbox_db_next [simp]: "outbox_notifications (db_next w) = outbox_notifications w"
  by (simp add: db_next_def)

lemma outbox_tick [simp]: "outbox_notifications (tick w) = outbox_notifications w"
  by (simp add: tick_def)

lemma outbox_took_uuid [simp]: "outbox_notifications (took_uuid w) = outbox_notifications w"
  by (simp add: took_uuid_def)

lemma outbox_SendMessage [simp]:
  "outbox_notifications (snd (SendMessage m w)) = outbox_notifications w"
  by (simp add: SendMessage_def send_next_def)

lemma MarkOutboxPublished_keeps_published:
  "list_all2 published_kept (outbox_notifications w)
     (outbox_notifications (snd (repo_MarkOutboxPublished i w)))"
  using published_kept_mark [of "outbox_notifications w" i "Some (now w)"]
  by (simp add: repo_MarkOutboxPublished_def Let_def published_kept_refl)

lemma repo_after_keeps_published:
  "list_all2 published_kept (outbox_notifications w)
     (take (length (outbox_notifications w)) (outbox_notifications (repo_after call w)))"
proof (cases call)
  case (Call_CreateNotification n)
  then show ?thesis by (simp add: repo_CreateNotification_def published_kept_refl)
next
  case (Call_MarkAsRead i)
  then show ?thesis by (simp add: repo_MarkAsRead_def Let_def published_kept_refl)
next
  case (Call_MarkAsDelivered i)
  then show ?thesis by (simp add: repo_MarkAsDelivered_def Let_def published_kept_refl)
next
  case (Call_MarkAsSent i)
  then show ?thesis by (simp add: repo_MarkAsSent_def Let_def published_kept_refl)
next
  case (Call_GetUnpublishedOutbox l)
  then show ?thesis by (simp add: repo_GetUnpublishedOutbox_def published_kept_refl)
next
  case (Call_MarkOutboxPublished i)
  then show ?thesis
    using published_kept_mark [of "outbox_notifications w" i "Some (now w)"]
    by (simp add: repo_MarkOutboxPublished_def Let_def published_kept_refl)
next
  case (Call_CreateOutboxEntry item)
  then show ?thesis by (simp add: repo_CreateOutboxEntry_def published_kept_refl)
next
  case (Call_UpdateUserPreferences u p)
  then show ?thesis by (simp add: repo_UpdateUserPreferences_def Let_def published_kept_refl)
next
  case (Call_GetUserEngagementStreak u t)
  then show ?thesis
    by (simp add: repo_GetUserEngagementStreak_def published_kept_refl split: list.splits)
next
  case (Call_UpdateUserEngagementStreak s)
  then show ?thesis by (simp add: repo_UpdateUserEngagementStreak_def Let_def published_kept_refl)
next
  case (Call_CreateDeliveryAttempt a)
  then show ?thesis by (simp add: repo_CreateDeliveryAttempt_def published_kept_refl)
qed (simp_all add: published_kept_refl)

lemma ProcessOutbox_items_keeps_published:
  "list_all2 published_kept (outbox_notifications w)
     (outbox_notifications (snd (ProcessOutbox_items items w)))"
proof (induction items arbitrary: w)
  case Nil
  show ?case by (simp add: published_kept_refl)
next
  case (Cons item items)
  define w1 where "w1 = snd (SendMessage (outbox_message item) w)"
  define w2 where "w2 = snd (repo_MarkOutboxPublished (Ob_ID item) w1)"
  have k1: "outbox_notifications w1 = outbox_notifications w"
    by (simp add: w1_def)
  have k2: "list_all2 published_kept (outbox_notifications w) (outbox_notifications w2)"
    using MarkOutboxPublished_keeps_published [where i = "Ob_ID item" and w = w1]
    by (simp add: w2_def k1)
  from k2 Cons.IH [of w2]
  have k3: "list_all2 published_kept (outbox_notifications w)
        (outbox_notifications (snd (ProcessOutbox_items items w2)))"
    by (rule published_kept_trans)
  show ?case
    using k1 k2 k3
    by (cases "SendMessage (outbox_message item) w";
        cases "repo_MarkOutboxPublished (Ob_ID item) w1")
       (auto simp: w1_def w2_def published_kept_refl split: option.splits)
qed

lemma ProcessOutbox_keeps_published:
  "list_all2 published_kept (outbox_notifications w)
     (outbox_notifications (snd (ProcessOutbox w)))"
  using ProcessOutbox_items_keeps_published [of "db_next w"]
  by (simp add: ProcessOutbox_def repo_GetUnpublishedOutbox_def published_kept_refl)

lemma GetUserEngagementStreak_world:
  "snd (repo_GetUserEngagementStreak u t w) = db_next w"
  by (simp add: repo_GetUserEngagementStreak_def split: list.splits)

lemma GetUserEngagementStreak_world_of:
  "repo_GetUserEngagementStreak u t w = (found, w1) \<Longrightarrow> w1 = db_next w"
  using GetUserEngagementStreak_world [of u t w] by simp

lemmas creator_unfold = split_beta Let_def GetUserEngagementStreak_world
  repo_CreateNotification_def repo_CreateOutboxEntry_def inserted_unpublished_def

lemma createDailyReminder_inserts:
  "inserted_unpublished w (snd (createDailyReminder user w))"
  by (simp add: createDailyReminder_def creator_unfold)

lemma createWeeklyRecap_inserts:
  "inserted_unpublished w (snd (createWeeklyRecap user w))"
  by (simp add: createWeeklyRecap_def creator_unfold)

lemma createEngagementNudge_inserts:
  "inserted_unpublished w (snd (createEngagementNudge user w))"
  by (simp add: createEngagementNudge_def creator_unfold)

lemma CreateDailyReminder_inserts:
  "inserted_unpublished w (snd (CreateDailyReminder topic user w))"
  by (simp add: CreateDailyReminder_def creator_unfold)

lemma createStreakReminder_inserts:
  "inserted_unpublished w (snd (createStreakReminder user w))"
proof (cases "repo_GetUserEngagementStreak (User_ID user) ''practice'' w")
  case (Pair found w1)
  then have "w1 = db_next w" by (rule GetUserEngagementStreak_world_of)
  with Pair show ?thesis
    by (cases found) (simp_all add: createStreakReminder_def creator_unfold)
qed

lemma CreateStreakReminder_inserts:
  "inserted_unpublished w (snd (CreateStreakReminder topic user w))"
proof (cases "repo_GetUserEngagementStreak (User_ID user) ''practice'' w")
  case (Pair found w1)
  then have "w1 = db_next w" by (rule GetUserEngagementStreak_world_of)
  with Pair show ?thesis
    by (cases found) (simp_all add: CreateStreakReminder_def creator_unfold)
qed

lemma CreateNotification_inserts:
  "\<exists>w5. inserted_unpublished w w5
     \<and> snd (CreateNotification topic req w) =
         (if isl (fst (CreateNotification topic req w)) then w5
          else if EqualFold (OUTBOX_IMMEDIATE_PUBLISH w5) ''true''
          then snd (ProcessOutbox w5) else w5)"
proof (cases "IsValidNotificationType (Req_Type req) \<and> IsValidChannel (Req_Channel req)")
  case False
  then have "isl (fst (CreateNotification topic req w))"
    "snd (CreateNotification topic req w) = w"
    by (auto simp: CreateNotification_def)
  moreover have "inserted_unpublished w w" by (simp add: inserted_unpublished_def)
  ultimately show ?thesis by (intro exI [of _ w]) simp
next
  case valid: True
  define w2 where "w2 = tick (took_uuid w)"
  define n where "n = \<lparr>N_ID = new_uuid w, N_UserID = Req_UserID req,
              N_Type = Req_Type req, N_Channel = Req_Channel req,
              N_Priority = Req_Priority req, N_Title = Req_Title req,
              N_Message = Req_Message req, N_Metadata = Req_Metadata req,
              N_CreatedAt = now (took_uuid w), N_ScheduledFor = Req_ScheduledFor req,
              N_SentAt = None, N_DeliveredAt = None, N_ReadAt = None,
              N_Status = StatusQueued\<rparr>"
  have w2: "outbox_notifications w2 = outbox_notifications w"
    by (simp add: w2_def)
  show ?thesis
  proof (cases "db_ok w2")
    case False
    then have "CreateNotification topic req w =
        (Inl (Errorf ''failed to create notification''
               (Some (Errorf ''failed to create notification'' (Some DriverError)))), db_next w2)"
      using valid by (simp add: CreateNotification_def Let_def repo_CreateNotification_def w2_def)
    moreover have "inserted_unpublished w (db_next w2)"
      by (simp add: inserted_unpublished_def w2)
    ultimately show ?thesis by (intro exI [of _ "db_next w2"]) simp
  next
    case ok2: True
    define w3 where "w3 = (db_next w2)\<lparr>notifications := notifications w2 @ [n]\<rparr>"
    have c3: "repo_CreateNotification n w2 = (None, w3)"
      using ok2 by (simp add: repo_CreateNotification_def w3_def n_def)
    define w4 where "w4 = tick w3"
    define item where "item = \<lparr>Ob_ID = 0, Ob_NotificationID = N_ID n,
                     Ob_Topic = topic, Ob_Payload = payload_of n,
                     Ob_Published = False, Ob_CreatedAt = now w3, Ob_PublishedAt = None\<rparr>"
    have w4: "outbox_notifications w4 = outbox_notifications w"
      by (simp add: w4_def w3_def w2)
    show ?thesis
    proof (cases "db_ok w4")
      case False
      then have "CreateNotification topic req w =
        (Inl (Errorf ''failed to create outbox entry''
               (Some (Errorf ''failed to create outbox entry'' (Some DriverError)))), db_next w4)"
        using valid c3
        by (simp add: CreateNotification_def Let_def repo_CreateOutboxEntry_def
            w2_def [symmetric] n_def [symmetric] w4_def [symmetric] item_def [symmetric])
      moreover have "inserted_unpublished w (db_next w4)"
        by (simp add: inserted_unpublished_def w4)
      ultimately show ?thesis by (intro exI [of _ "db_next w4"]) simp
    next
      case ok4: True
      define entry where "entry = item\<lparr>Ob_ID := outbox_seq w4 + 1, Ob_PublishedAt := None\<rparr>"
      define w5 where "w5 = (db_next w4)\<lparr>outbox_seq := outbox_seq w4 + 1,
              outbox_notifications := outbox_notifications w4 @ [entry]\<rparr>"
      have c5: "repo_CreateOutboxEntry item w4 = (None, w5)"
        using ok4 by (simp add: repo_CreateOutboxEntry_def w5_def entry_def)
      have run: "CreateNotification topic req w =
          (Inr n, if EqualFold (OUTBOX_IMMEDIATE_PUBLISH w5) ''true''
                  then snd (ProcessOutbox w5) else w5)"
        using valid c3 c5
        by (simp add: CreateNotification_def Let_def
            w2_def [symmetric] n_def [symmetric] w4_def [symmetric] item_def [symmetric])
      have "outbox_notifications w5 = outbox_notifications w @ [entry]"
        "Ob_Published entry = False" "Ob_PublishedAt entry = None"
        using w4 by (simp_all add: w5_def entry_def item_def)
      then have "inserted_unpublished w w5"
        unfolding inserted_unpublished_def by blast
      with run show ?thesis by (intro exI [of _ w5]) simp
    qed
  qed
qed

text \<open>
  C6. The published flag of a row of the outbox only ever goes from false to true.
  No call of the repository resets it: after any call every row of the outbox is still
  there with its id, and a row that was published is published; the same holds for a
  tick of \<open>ProcessOutbox\<close>. \<open>MarkOutboxPublished\<close> sets the flag and the time of
  publication of the rows with the given id. \<open>CreateOutboxEntry\<close> adds one row, with
  the flag of the item it is given and no time of publication, and every caller of it
  gives it an item whose flag is false: \<open>CreateDailyReminder\<close> and
  \<open>CreateStreakReminder\<close> of the service, \<open>createDailyReminder\<close>,
  \<open>createStreakReminder\<close>, \<open>createWeeklyRecap\<close> and \<open>createEngagementNudge\<close> of
  the scheduler leave the outbox as it was or add one unpublished row to it, and so does
  \<open>CreateNotification\<close>, which then, when it has succeeded and is configured to publish
  at once, runs \<open>ProcessOutbox\<close>.
\<close>

theorem published_flag_never_reset:
  "list_all2 published_kept (outbox_notifications w)
     (take (length (outbox_notifications w)) (outbox_notifications (repo_after call w)))
   \<and> list_all2 published_kept (outbox_notifications w)
       (outbox_notifications (snd (ProcessOutbox w)))
   \<and> (fst (repo_CreateOutboxEntry item w) = None \<longrightarrow>
        (\<exists>entry. outbox_notifications (snd (repo_CreateOutboxEntry item w)) =
                   outbox_notifications w @ [entry]
                 \<and> Ob_Published entry = Ob_Published item \<and> Ob_PublishedAt entry = None))
   \<and> (fst (repo_MarkOutboxPublished i w) = None \<longrightarrow>
        outbox_notifications (snd (repo_MarkOutboxPublished i w)) =
          map (\<lambda>r. if Ob_ID r = i
                    then r\<lparr>Ob_Published := True, Ob_PublishedAt := Some (now w)\<rparr> else r)
              (outbox_notifications w))
   \<and> inserted_unpublished w (snd (CreateDailyReminder topic user w))
   \<and> inserted_unpublished w (snd (CreateStreakReminder topic user w))
   \<and> inserted_unpublished w (snd (createDailyReminder user w))
   \<and> inserted_unpublished w (snd (createStreakReminder user w))
   \<and> inserted_unpublished w (snd (createWeeklyRecap user w))
   \<and> inserted_unpublished w (snd (createEngagementNudge user w))
   \<and> (\<exists>w5. inserted_unpublished w w5
         \<and> snd (CreateNotification topic req w) =
             (if isl (fst (CreateNotification topic req w)) then w5
              else if EqualFold (OUTBOX_IMMEDIATE_PUBLISH w5) ''true''
              then snd (ProcessOutbox w5) else w5))"
proof -
  have a: "fst (repo_CreateOutboxEntry item w) = None \<longrightarrow>
        (\<exists>entry. outbox_notifications (snd (repo_CreateOutboxEntry item w)) =
                   outbox_notifications w @ [entry]
                 \<and> Ob_Published entry = Ob_Published item \<and> Ob_PublishedAt entry = None)"
    by (simp add: repo_CreateOutboxEntry_def)
  have b: "fst (repo_MarkOutboxPublished i w) = None \<longrightarrow>
        outbox_notifications (snd (repo_MarkOutboxPublished i w)) =
          map (\<lambda>r. if Ob_ID r = i
                    then r\<lparr>Ob_Published := True, Ob_PublishedAt := Some (now w)\<rparr> else r)
              (outbox_notifications w)"
    by (simp add: repo_MarkOutboxPublished_def Let_def)
  from repo_after_keeps_published [of w call] ProcessOutbox_keeps_published [of w] a b
    CreateDailyReminder_inserts [of w topic user] CreateStreakReminder_inserts [of w topic user]
    createDailyReminder_inserts [of w user] createStreakReminder_inserts [of w user]
    createWeeklyRecap_inserts [of w user] createEngagementNudge_inserts [of w user]
    CreateNotification_inserts [of w topic req]
  show ?thesis by (intro conjI)
qed

lemmas repo_eval = world_outbox_def world0_def outbox_row_def repo_CreateOutboxEntry_def
  repo_MarkOutboxPublished_def env_defs Let_def

theorem published_flag_never_reset_witness:
  "map Ob_Published (outbox_notifications world_outbox) = [False, True, False, False]
   \<and> fst (repo_MarkOutboxPublished 3 world_outbox) = None
   \<and> map Ob_Published (outbox_notifications
        (repo_after (Call_MarkOutboxPublished 3) world_outbox)) = [False, True, True, False]
   \<and> map Ob_PublishedAt (outbox_notifications
        (repo_after (Call_MarkOutboxPublished 3) world_outbox)) =
        [None, Some 10, Some 1728000000, None]
   \<and> fst (repo_CreateOutboxEntry (outbox_row 0 note_2 False 50) world_outbox) = None
   \<and> map Ob_Published (outbox_notifications
        (snd (repo_CreateOutboxEntry (outbox_row 0 note_2 False 50) world_outbox))) =
        [False, True, False, False, False]
   \<and> map Ob_Published (outbox_notifications
        (snd (createEngagementNudge user_ada world_outbox))) =
        [False, True, False, False, False]
   \<and> map Ob_Published (outbox_notifications
        (snd (CreateStreakReminder ''notifications'' user_ada world_outbox))) =
        [False, True, False, False]"
  using published_flag_never_reset [where w = world_outbox and call = "Call_MarkOutboxPublished 3"
      and item = "outbox_row 0 note_2 False 50" and i = 3 and user = user_ada]
  by (simp add: repo_eval createEngagementNudge_def CreateStreakReminder_def
      repo_CreateNotification_def repo_GetUserEngagementStreak_def)

section \<open>Malformed messages\<close>

lemma ConsumeClaim_append:
  "ConsumeClaim unmarshal (xs @ ys) c = ConsumeClaim unmarshal ys (ConsumeClaim unmarshal xs c)"
  by (induction xs arbitrary: c) (simp_all add: Let_def split: sum.splits)

lemma ConsumeClaim_logged_irrelevant:
  "data (ConsumeClaim unmarshal ms (c\<lparr>logged := l\<rparr>)) = data (ConsumeClaim unmarshal ms c)
   \<and> marked (ConsumeClaim unmarshal ms (c\<lparr>logged := l\<rparr>)) = marked (ConsumeClaim unmarshal ms c)"
proof (induction ms arbitrary: c l)
  case Nil
  show ?case by simp
next
  case (Cons m ms)
  show ?case
  proof (cases "unmarshal (CM_Value m)")
    case (Inl err)
    then show ?thesis
      using Cons.IH [where c = c and l = "l @ [''failed to unmarshal notification'']"]
        Cons.IH [where c = c and l = "logged c @ [''failed to unmarshal notification'']"]
      by simp
  next
    case (Inr n)
    have "MarkMessage m (Add (CM_Key m) n (c\<lparr>logged := l\<rparr>)) =
          (MarkMessage m (Add (CM_Key m) n c))\<lparr>logged := l\<rparr>"
      by (simp add: MarkMessage_def Add_def)
    then show ?thesis
      using Inr Cons.IH [where c = "MarkMessage m (Add (CM_Key m) n c)" and l = l] by simp
  qed
qed

text \<open>
  C7. When the value of a claimed message does not decode, \<open>ConsumeClaim\<close> writes one
  line to the log and goes on with the messages after it, from the state it had: the
  store and the marked messages end up as if the message had not been in the claim. The
  message is not handled again and goes nowhere else.
\<close>

theorem ConsumeClaim_drops_malformed:
  assumes "unmarshal (CM_Value msg) = Inl err"
  shows "ConsumeClaim unmarshal (before @ msg # after) c =
           ConsumeClaim unmarshal after
             ((ConsumeClaim unmarshal before c)
                \<lparr>logged := logged (ConsumeClaim unmarshal before c)
                              @ [''failed to unmarshal notification'']\<rparr>)
         \<and> data (ConsumeClaim unmarshal (before @ msg # after) c) =
             data (ConsumeClaim unmarshal (before @ after) c)
         \<and> marked (ConsumeClaim unmarshal (before @ msg # after) c) =
             marked (ConsumeClaim unmarshal (before @ after) c)"
  using assms ConsumeClaim_logged_irrelevant
    [where unmarshal = unmarshal and ms = after and c = "ConsumeClaim unmarshal before c"
       and l = "logged (ConsumeClaim unmarshal before c) @ [''failed to unmarshal notification'']"]
  by (simp add: ConsumeClaim_append)

lemmas consumer_eval = consumer0_def message_1_def message_2_def message_3_def
  unmarshal_empty_object_def MarkMessage_def Add_def Get_def Let_def

theorem ConsumeClaim_drops_malformed_witness:
  "unmarshal_empty_object (CM_Value message_2) = Inl (Errorf ''invalid character'' None)
   \<and> logged (ConsumeClaim unmarshal_empty_object [message_1, message_2, message_3] consumer0)
        = [''failed to unmarshal notification'']
   \<and> marked (ConsumeClaim unmarshal_empty_object [message_1, message_2, message_3] consumer0)
        = [message_1, message_3]
   \<and> Get ada (ConsumeClaim unmarshal_empty_object [message_1, message_2, message_3] consumer0)
        = [zero_notification]
   \<and> Get bob (ConsumeClaim unmarshal_empty_object [message_1, message_2, message_3] consumer0)
        = [zero_notification]"
  using ConsumeClaim_drops_malformed [where unmarshal = unmarshal_empty_object
      and msg = message_2 and before = "[message_1]" and after = "[message_3]" and c = consumer0
      and err = "Errorf ''invalid character'' None"]
  by (simp add: consumer_eval ada_def bob_def)

section \<open>The retry loop of the consumer group\<close>

lemma setup_step_Returned [simp]: "at g = Returned \<Longrightarrow> setup_step e g = g"
  by (simp add: setup_step.simps)

lemma setupConsumerGroup_Returned: "at g = Returned \<Longrightarrow> setupConsumerGroup es g = g"
  by (induction es arbitrary: g) simp_all

lemma setupConsumerGroup_append:
  "setupConsumerGroup (es @ fs) g = setupConsumerGroup fs (setupConsumerGroup es g)"
  by (induction es arbitrary: g) simp_all

lemma setup_step_not_cancelled:
  "\<not> cancelled e \<Longrightarrow> at g \<noteq> Returned \<Longrightarrow> at (setup_step e g) \<noteq> Returned"
  by (cases "at g") (simp_all add: setup_step.simps)

lemma runs_while_not_cancelled:
  "\<forall>e\<in>set es. \<not> cancelled e \<Longrightarrow> at g \<noteq> Returned \<Longrightarrow>
   at (setupConsumerGroup es g) \<noteq> Returned"
proof (induction es arbitrary: g)
  case Nil
  then show ?case by simp
next
  case (Cons e es)
  from Cons.prems have "at (setup_step e g) \<noteq> Returned"
    by (intro setup_step_not_cancelled) simp_all
  with Cons show ?case by simp
qed

lemma error_then_backoff:
  "at g = Initializing \<or> at g = Consuming \<Longrightarrow> failed e \<Longrightarrow>
   at (setup_step e g) = Backoff_after_init \<or> at (setup_step e g) = Backoff_after_consume"
  by (cases "at g") (simp_all add: setup_step.simps)

lemma backoff_then_retry:
  "at g = Backoff_after_init \<or> at g = Backoff_after_consume \<Longrightarrow> \<not> cancelled e \<Longrightarrow>
   at (setup_step e g) = Initializing \<and> trace (setup_step e g) = trace g @ [Wait_seconds 5]"
  by (cases "at g") (simp_all add: setup_step.simps backoff_def)

lemma retry_then_consume:
  "at g = Initializing \<Longrightarrow> \<not> failed e \<Longrightarrow> at (setup_step e g) = Consuming"
  by (simp add: setup_step.simps)

lemma error_then_retry:
  assumes "at g = Initializing \<or> at g = Consuming" "failed e1" "\<not> cancelled e2"
  shows "state_of (at (setup_step e1 g)) = Disconnected
       \<and> at (setup_step e2 (setup_step e1 g)) = Initializing
       \<and> trace (setup_step e2 (setup_step e1 g)) =
           trace (setup_step e1 g) @ [Wait_seconds 5]"
proof -
  from error_then_backoff [OF assms(1,2)]
  have b: "at (setup_step e1 g) = Backoff_after_init \<or> at (setup_step e1 g) = Backoff_after_consume" .
  then have "state_of (at (setup_step e1 g)) = Disconnected" by auto
  with backoff_then_retry [OF b assms(3)] show ?thesis by simp
qed

lemma cancelled_step:
  "cancelled e \<Longrightarrow> answers_to_return (at (setup_step e g)) \<le> answers_to_return (at g) - 1"
  by (cases "at g") (simp_all add: setup_step.simps)

lemma answers_to_return_0: "answers_to_return l = 0 \<Longrightarrow> l = Returned"
  by (cases l) simp_all

lemma answers_to_return_le: "answers_to_return l \<le> 3"
  by (cases l) simp_all

lemma stops_when_cancelled:
  assumes "cancelled e1" "cancelled e2" "cancelled e3"
  shows "at (setupConsumerGroup (e1 # e2 # e3 # es) g) = Returned"
proof -
  define g1 where "g1 = setup_step e1 g"
  define g2 where "g2 = setup_step e2 g1"
  define g3 where "g3 = setup_step e3 g2"
  have "answers_to_return (at g1) \<le> 2"
    using cancelled_step [OF assms(1), of g] answers_to_return_le [of "at g"]
    unfolding g1_def by linarith
  then have "answers_to_return (at g2) \<le> 1"
    using cancelled_step [OF assms(2), of g1] unfolding g2_def by linarith
  then have "answers_to_return (at g3) = 0"
    using cancelled_step [OF assms(3), of g2] unfolding g3_def by linarith
  then have "at g3 = Returned" by (rule answers_to_return_0)
  then have "setupConsumerGroup es g3 = g3" by (rule setupConsumerGroup_Returned)
  with \<open>at g3 = Returned\<close> show ?thesis
    by (simp add: g1_def g2_def g3_def)
qed

text \<open>
  C8. The loop of \<open>setupConsumerGroup\<close> returns only on cancellation: as long as no
  answer of the environment carries the cancellation, the goroutine has not returned. An
  error of the initialization or of \<open>Consume\<close> takes it to the disconnected state, where
  it waits for the 5 seconds of the backoff and then initializes the consumer group again,
  and consumes again when that succeeds. Once the context is cancelled it has returned
  after three answers at most.
\<close>

theorem setupConsumerGroup_retries_until_cancelled:
  "(at g \<noteq> Returned \<and> (\<forall>e\<in>set es. \<not> cancelled e) \<longrightarrow>
      at (setupConsumerGroup es g) \<noteq> Returned)
   \<and> ((at g = Initializing \<or> at g = Consuming) \<and> failed e1 \<and> \<not> cancelled e2 \<longrightarrow>
        state_of (at (setup_step e1 g)) = Disconnected
        \<and> at (setup_step e2 (setup_step e1 g)) = Initializing
        \<and> state_of (at (setup_step e2 (setup_step e1 g))) = Connecting
        \<and> trace (setup_step e2 (setup_step e1 g)) = trace (setup_step e1 g) @ [Wait_seconds 5]
        \<and> (\<not> failed e3 \<longrightarrow> at (setup_step e3 (setup_step e2 (setup_step e1 g))) = Consuming))
   \<and> (cancelled c1 \<and> cancelled c2 \<and> cancelled c3 \<longrightarrow>
        at (setupConsumerGroup (c1 # c2 # c3 # cs) g) = Returned)"
proof (intro conjI impI)
  assume "at g \<noteq> Returned \<and> (\<forall>e\<in>set es. \<not> cancelled e)"
  then show "at (setupConsumerGroup es g) \<noteq> Returned"
    using runs_while_not_cancelled [of es g] by simp
next
  assume a: "(at g = Initializing \<or> at g = Consuming) \<and> failed e1 \<and> \<not> cancelled e2"
  then have r: "state_of (at (setup_step e1 g)) = Disconnected
       \<and> at (setup_step e2 (setup_step e1 g)) = Initializing
       \<and> trace (setup_step e2 (setup_step e1 g)) = trace (setup_step e1 g) @ [Wait_seconds 5]"
    using error_then_retry [of g e1 e2] by simp
  from r show "state_of (at (setup_step e1 g)) = Disconnected" by simp
  from r show "at (setup_step e2 (setup_step e1 g)) = Initializing" by simp
  from r show "state_of (at (setup_step e2 (setup_step e1 g))) = Connecting" by simp
  from r show "trace (setup_step e2 (setup_step e1 g)) = trace (setup_step e1 g) @ [Wait_seconds 5]"
    by simp
  assume "\<not> failed e3"
  with r show "at (setup_step e3 (setup_step e2 (setup_step e1 g))) = Consuming"
    by (intro retry_then_consume) simp_all
next
  assume "cancelled c1 \<and> cancelled c2 \<and> cancelled c3"
  then show "at (setupConsumerGroup (c1 # c2 # c3 # cs) g) = Returned"
    using stops_when_cancelled [of c1 c2 c3 cs g] by simp
qed

lemmas setup_eval = goroutine0_def fine_def broken_def fine_cancelled_def broken_cancelled_def
  backoff_def

theorem setupConsumerGroup_retries_until_cancelled_witness:
  "at goroutine0 = Initializing
   \<and> failed broken \<and> \<not> cancelled broken \<and> \<not> cancelled fine \<and> \<not> failed fine
   \<and> cancelled fine_cancelled \<and> cancelled broken_cancelled
   \<and> at (setupConsumerGroup [broken, fine, fine, fine, broken, fine] goroutine0) = Initializing
   \<and> trace (setupConsumerGroup [broken, fine, fine, fine, broken, fine] goroutine0) =
       [Log ''initialization error'', Wait_seconds 5, Log ''error from consumer'', Close,
        Wait_seconds 5]
   \<and> at (setupConsumerGroup [broken, fine] goroutine0) = Initializing
   \<and> at (setupConsumerGroup [broken, fine, fine] goroutine0) = Consuming
   \<and> at (setupConsumerGroup [fine, fine, fine_cancelled] goroutine0) = Returned
   \<and> at (setupConsumerGroup [broken_cancelled, fine_cancelled, fine_cancelled] goroutine0)
       = Returned"
  using setupConsumerGroup_retries_until_cancelled
      [where g = goroutine0 and es = "[broken, fine, fine, fine, broken, fine]"
         and ?e1.0 = broken and ?e2.0 = fine and ?e3.0 = fine
         and ?c1.0 = broken_cancelled and ?c2.0 = fine_cancelled and ?c3.0 = fine_cancelled
         and cs = "[]"]
  by (simp add: setup_eval setup_step.simps)

section \<open>The daily reminder\<close>

lemma db_answers_ok [simp]: "db_answers w \<Longrightarrow> db_ok w"
  by (cases "db_faults w") (auto simp: db_ok_def db_answers_def)

lemma db_answers_next [simp]: "db_answers w \<Longrightarrow> db_answers (db_next w)"
  by (cases "db_faults w") (auto simp: db_next_def db_answers_def)

lemma db_answers_frame [simp]:
  "db_answers (tick w) = db_answers w"
  "db_answers (took_uuid w) = db_answers w"
  "db_answers (w\<lparr>notifications := ns\<rparr>) = db_answers w"
  "db_answers (w\<lparr>outbox_notifications := os\<rparr>) = db_answers w"
  "db_answers (w\<lparr>outbox_seq := q\<rparr>) = db_answers w"
  by (simp_all add: db_answers_def tick_def took_uuid_def)

lemma frame_tick [simp]:
  "users (tick w) = users w"
  "user_notification_preferences (tick w) = user_notification_preferences w"
  "notifications (tick w) = notifications w" "clock (tick w) = clock w"
  by (simp_all add: tick_def)

lemma frame_took_uuid [simp]:
  "users (took_uuid w) = users w"
  "user_notification_preferences (took_uuid w) = user_notification_preferences w"
  "notifications (took_uuid w) = notifications w" "clock (took_uuid w) = clock w"
  "clock_reads (took_uuid w) = clock_reads w"
  by (simp_all add: took_uuid_def)

lemma frame_db_next [simp]:
  "users (db_next w) = users w"
  "user_notification_preferences (db_next w) = user_notification_preferences w"
  "notifications (db_next w) = notifications w" "clock (db_next w) = clock w"
  "clock_reads (db_next w) = clock_reads w"
  by (simp_all add: db_next_def)

lemmas createDailyReminder_unfold = createDailyReminder_def split_beta Let_def
  GetUserEngagementStreak_world repo_CreateNotification_def repo_CreateOutboxEntry_def

lemma createDailyReminder_ok:
  assumes nf: "db_answers w"
  shows "\<exists>n. notifications (snd (createDailyReminder user w)) = notifications w @ [n]
           \<and> N_UserID n = User_ID user \<and> N_Type n = ''daily_reminder''
           \<and> N_CreatedAt n = clock w (clock_reads w)"
    and "users (snd (createDailyReminder user w)) = users w"
    and "user_notification_preferences (snd (createDailyReminder user w)) =
           user_notification_preferences w"
    and "clock (snd (createDailyReminder user w)) = clock w"
    and "db_answers (snd (createDailyReminder user w))"
  using nf by (simp_all add: createDailyReminder_unfold now_def DailyReminder_def)

lemma createDailyReminder_count:
  assumes "db_answers w" "\<forall>i. date_of (clock w i) = day"
  shows "length (daily_reminders_on day uid (snd (createDailyReminder user w))) =
           length (daily_reminders_on day uid w) + (if User_ID user = uid then 1 else 0)"
proof -
  from createDailyReminder_ok(1) [OF assms(1), of user]
  obtain n where n: "notifications (snd (createDailyReminder user w)) = notifications w @ [n]"
    "N_UserID n = User_ID user" "N_Type n = ''daily_reminder''"
    "N_CreatedAt n = clock w (clock_reads w)"
    by blast
  have "date_of (N_CreatedAt n) = day" using assms(2) n(4) by simp
  then show ?thesis using n by (simp add: daily_reminders_on_def)
qed

lemma processDailyReminders_users_count:
  assumes "db_answers w" "\<forall>i. date_of (clock w i) = day"
  shows "length (daily_reminders_on day uid (processDailyReminders_users us w)) =
           length (daily_reminders_on day uid w) + length [x \<leftarrow> us. User_ID x = uid]"
  using assms
proof (induction us arbitrary: w)
  case Nil
  show ?case by simp
next
  case (Cons user us)
  define w1 where "w1 = snd (createDailyReminder user w)"
  have a: "db_answers w1" unfolding w1_def using Cons.prems(1) by (rule createDailyReminder_ok(5))
  have "clock w1 = clock w" unfolding w1_def using Cons.prems(1) by (rule createDailyReminder_ok(4))
  then have d: "\<forall>i. date_of (clock w1 i) = day" using Cons.prems(2) by simp
  have c: "length (daily_reminders_on day uid w1) =
           length (daily_reminders_on day uid w) + (if User_ID user = uid then 1 else 0)"
    unfolding w1_def using Cons.prems by (rule createDailyReminder_count)
  show ?case using Cons.IH [OF a d] c by (simp add: w1_def)
qed

lemma cohort_of_daily_reminders:
  assumes "db_answers w"
  shows "\<exists>cohort. getUsersNeedingDailyReminders w = (Inr cohort, db_next (tick w))
     \<and> distinct cohort
     \<and> set cohort = {u \<in> set (users w).
          (\<exists>unp\<in>set (user_notification_preferences w).
              User_ID u = Pref_UserID unp \<and> Pref_Type unp = ''daily_reminder''
              \<and> Pref_Channel unp = ''in_app'' \<and> Pref_Enabled unp)
          \<and> \<not> (\<exists>n\<in>set (notifications w). N_UserID n = User_ID u
                   \<and> N_Type n = ''daily_reminder''
                   \<and> date_of (N_CreatedAt n) = date_of (now w))}"
proof -
  have "db_ok (tick w)" using assms by simp
  then show ?thesis
    by (simp add: getUsersNeedingDailyReminders_def Let_def list_ex_iff) blast
qed

lemma none_with_id:
  "\<forall>y\<in>set xs. f y \<noteq> k \<Longrightarrow> [y \<leftarrow> xs. f y = k] = []"
  by (induction xs) simp_all

lemma one_with_id:
  assumes "distinct xs" "inj_on f (set xs)" "x \<in> set xs"
  shows "length [y \<leftarrow> xs. f y = f x] = 1"
  using assms
proof (induction xs)
  case Nil
  then show ?case by simp
next
  case (Cons a xs)
  show ?case
  proof (cases "a = x")
    case True
    have "\<forall>y\<in>set xs. f y \<noteq> f x"
    proof
      fix y assume y: "y \<in> set xs"
      then have ne: "y \<noteq> x" using Cons.prems(1) True by auto
      have ys: "y \<in> set (a # xs)" and xs: "x \<in> set (a # xs)" using y True by simp_all
      show "f y \<noteq> f x"
      proof
        assume "f y = f x"
        from inj_onD [OF Cons.prems(2) this ys xs] ne show False by simp
      qed
    qed
    then have "[y \<leftarrow> xs. f y = f x] = []" by (rule none_with_id)
    then show ?thesis using True by simp
  next
    case False
    then have x: "x \<in> set xs" using Cons.prems(3) by simp
    have "f a \<noteq> f x"
    proof
      assume "f a = f x"
      from inj_onD [OF Cons.prems(2) this] x False show False by simp
    qed
    moreover have "inj_on f (set xs)" using Cons.prems(2) by (simp add: inj_on_def)
    ultimately show ?thesis using Cons.IH Cons.prems(1) x by simp
  qed
qed

lemma processDailyReminders_users_frame:
  assumes "db_answers w"
  shows "db_answers (processDailyReminders_users us w)
       \<and> clock (processDailyReminders_users us w) = clock w
       \<and> users (processDailyReminders_users us w) = users w
       \<and> user_notification_preferences (processDailyReminders_users us w) =
           user_notification_preferences w"
  using assms
proof (induction us arbitrary: w)
  case Nil
  then show ?case by simp
next
  case (Cons user us)
  note ok = createDailyReminder_ok [OF Cons.prems, of user]
  show ?case using Cons.IH [OF ok(5)] ok(2,3,4) by simp
qed

lemma daily_reminders_on_cong:
  "notifications w' = notifications w \<Longrightarrow> daily_reminders_on day uid w' = daily_reminders_on day uid w"
  by (simp add: daily_reminders_on_def)

text \<open>
  C4. Take a user of the store with an enabled \<open>daily_reminder\<close> preference on the
  \<open>in_app\<close> channel and no \<open>daily_reminder\<close> notification of that day yet, in a
  store where the ids of the users are distinct, with a database that answers and a clock
  that stays within the day. Run the tick of the daily reminder twice, one after the
  other. The cohort of the first tick has the user, and after it the user has one
  \<open>daily_reminder\<close> notification of the day; the cohort of the second tick does not
  have the user, and after it the user still has exactly one.
\<close>

theorem daily_reminder_once_a_day:
  assumes pk: "distinct (map User_ID (users w))"
    and db: "db_answers w"
    and day: "\<forall>i. date_of (clock w i) = day"
    and u: "u \<in> set (users w)"
    and pref: "\<exists>unp\<in>set (user_notification_preferences w).
        User_ID u = Pref_UserID unp \<and> Pref_Type unp = ''daily_reminder''
        \<and> Pref_Channel unp = ''in_app'' \<and> Pref_Enabled unp"
    and none: "daily_reminders_on day (User_ID u) w = []"
  shows "(\<exists>cohort. fst (getUsersNeedingDailyReminders w) = Inr cohort \<and> u \<in> set cohort)
    \<and> fst (processDailyReminders w) = None
    \<and> length (daily_reminders_on day (User_ID u) (snd (processDailyReminders w))) = 1
    \<and> (\<exists>cohort. fst (getUsersNeedingDailyReminders (snd (processDailyReminders w))) = Inr cohort
          \<and> u \<notin> set cohort)
    \<and> fst (processDailyReminders (snd (processDailyReminders w))) = None
    \<and> length (daily_reminders_on day (User_ID u)
          (snd (processDailyReminders (snd (processDailyReminders w))))) = 1"
proof -
  have inj: "inj_on User_ID (set (users w))" using pk by (simp add: distinct_map)
  \<comment> \<open>the first tick\<close>
  from cohort_of_daily_reminders [OF db]
  obtain c1 where c1: "getUsersNeedingDailyReminders w = (Inr c1, db_next (tick w))"
    "distinct c1"
    "set c1 = {u \<in> set (users w).
          (\<exists>unp\<in>set (user_notification_preferences w).
              User_ID u = Pref_UserID unp \<and> Pref_Type unp = ''daily_reminder''
              \<and> Pref_Channel unp = ''in_app'' \<and> Pref_Enabled unp)
          \<and> \<not> (\<exists>n\<in>set (notifications w). N_UserID n = User_ID u
                   \<and> N_Type n = ''daily_reminder''
                   \<and> date_of (N_CreatedAt n) = date_of (now w))}"
    by blast
  have today: "date_of (now w) = day" using day by (simp add: now_def)
  have "\<not> (\<exists>n\<in>set (notifications w). N_UserID n = User_ID u
                   \<and> N_Type n = ''daily_reminder'' \<and> date_of (N_CreatedAt n) = day)"
    using none by (simp add: daily_reminders_on_def filter_empty_conv)
  then have in1: "u \<in> set c1" using u pref today by (simp add: c1(3))
  define wq where "wq = db_next (tick w)"
  define w1 where "w1 = processDailyReminders_users c1 wq"
  have run1: "processDailyReminders w = (None, w1)"
    by (simp add: processDailyReminders_def c1(1) w1_def wq_def)
  have q: "db_answers wq" "clock wq = clock w" "users wq = users w"
    "user_notification_preferences wq = user_notification_preferences w"
    "notifications wq = notifications w"
    using db by (simp_all add: wq_def)
  have dq: "\<forall>i. date_of (clock wq i) = day" using day q(2) by simp
  have "set c1 \<subseteq> set (users w)" by (auto simp: c1(3))
  then have "inj_on User_ID (set c1)" using inj by (rule inj_on_subset [rotated])
  then have one: "length [x \<leftarrow> c1. User_ID x = User_ID u] = 1"
    using c1(2) in1 by (intro one_with_id)
  have count1: "length (daily_reminders_on day (User_ID u) w1) = 1"
    using processDailyReminders_users_count [OF q(1) dq, of "User_ID u" c1] one
      daily_reminders_on_cong [OF q(5), of day "User_ID u"] none
    by (simp add: w1_def)
  have f1: "db_answers w1" "clock w1 = clock w" "users w1 = users w"
    "user_notification_preferences w1 = user_notification_preferences w"
    using processDailyReminders_users_frame [OF q(1), of c1] q by (simp_all add: w1_def)
  \<comment> \<open>the second tick\<close>
  from cohort_of_daily_reminders [OF f1(1)]
  obtain c2 where c2: "getUsersNeedingDailyReminders w1 = (Inr c2, db_next (tick w1))"
    "set c2 = {u \<in> set (users w1).
          (\<exists>unp\<in>set (user_notification_preferences w1).
              User_ID u = Pref_UserID unp \<and> Pref_Type unp = ''daily_reminder''
              \<and> Pref_Channel unp = ''in_app'' \<and> Pref_Enabled unp)
          \<and> \<not> (\<exists>n\<in>set (notifications w1). N_UserID n = User_ID u
                   \<and> N_Type n = ''daily_reminder''
                   \<and> date_of (N_CreatedAt n) = date_of (now w1))}"
    by blast
  have today1: "date_of (now w1) = day" using day f1(2) by (simp add: now_def)
  have "daily_reminders_on day (User_ID u) w1 \<noteq> []" using count1 by auto
  then have ex: "\<exists>n\<in>set (notifications w1). N_UserID n = User_ID u
                   \<and> N_Type n = ''daily_reminder'' \<and> date_of (N_CreatedAt n) = day"
    by (simp add: daily_reminders_on_def filter_empty_conv) blast
  have out2: "\<forall>x\<in>set c2. User_ID x \<noteq> User_ID u"
    using ex today1 by (auto simp: c2(2))
  then have nin2: "u \<notin> set c2" by auto
  define wq2 where "wq2 = db_next (tick w1)"
  define w2 where "w2 = processDailyReminders_users c2 wq2"
  have run2: "processDailyReminders w1 = (None, w2)"
    by (simp add: processDailyReminders_def c2(1) w2_def wq2_def)
  have q2: "db_answers wq2" "clock wq2 = clock w" "notifications wq2 = notifications w1"
    using f1 by (simp_all add: wq2_def)
  have dq2: "\<forall>i. date_of (clock wq2 i) = day" using day q2(2) by simp
  have zero: "[x \<leftarrow> c2. User_ID x = User_ID u] = []" using out2 by (rule none_with_id)
  have count2: "length (daily_reminders_on day (User_ID u) w2) = 1"
    using processDailyReminders_users_count [OF q2(1) dq2, of "User_ID u" c2] zero
      daily_reminders_on_cong [OF q2(3), of day "User_ID u"] count1
    by (simp add: w2_def)
  show ?thesis
    using in1 nin2 count1 count2 by (simp add: run1 run2 c1(1) c2(1))
qed

lemma world_day_clock: "date_of (clock world_day i) = 20000"
proof -
  have "i mod 3600 < 3600" by simp
  then have "int (i mod 3600) < 3600" by linarith
  then have "(1728000000 + int (i mod 3600)) div 86400 = 20000" by linarith
  then show ?thesis by (simp add: world_day_def world0_def date_of_def)
qed

lemmas scheduler_eval = world_day_def world0_def user_ada_def processDailyReminders_def
  getUsersNeedingDailyReminders_def createDailyReminder_def repo_GetUserEngagementStreak_def
  repo_CreateNotification_def repo_CreateOutboxEntry_def env_defs Let_def consts_defs
  daily_reminders_on_def date_of_def db_answers_def

theorem daily_reminder_once_a_day_witness:
  "distinct (map User_ID (users world_day))
   \<and> db_answers world_day
   \<and> (\<forall>i. date_of (clock world_day i) = 20000)
   \<and> user_ada \<in> set (users world_day)
   \<and> map Pref_Enabled (user_notification_preferences world_day) = [True]
   \<and> daily_reminders_on 20000 ada world_day = []
   \<and> fst (getUsersNeedingDailyReminders world_day) = Inr [user_ada]
   \<and> map N_UserID (notifications (snd (processDailyReminders world_day))) = [ada]
   \<and> fst (getUsersNeedingDailyReminders (snd (processDailyReminders world_day))) = Inr []
   \<and> map N_UserID (notifications
        (snd (processDailyReminders (snd (processDailyReminders world_day))))) = [ada]
   \<and> length (daily_reminders_on 20000 ada
        (snd (processDailyReminders (snd (processDailyReminders world_day))))) = 1"
  using daily_reminder_once_a_day [where w = world_day and day = 20000 and u = user_ada]
    world_day_clock
  by (simp add: scheduler_eval)

section \<open>The round trip of a JSONMap through the database\<close>





























end
